theory Spec2Isabelle
  imports Main
begin

section \<open>Historical air-quality and weather series (external\_apis.py)\<close>

text \<open>
  The module holds two functions, \<open>get_air_pollution_history\<close> and
  \<open>get_weather_history\<close>. Each one asks an upstream client for a response, reads the
  hourly block of the first response (start instant, end instant, sampling interval and
  a vector of value arrays read by position), builds a timestamp axis with the date-range
  function of the data-frame library, and returns a dictionary whose first key is
  \<open>date\<close> and whose other keys are the requested variable names.

  The value arrays are only carried, never inspected, so their element type is the type
  variable \<open>'v\<close>. Coordinates are only handed to the client, so their type is \<open>'c\<close>.
  The state of everything outside the module (network, response cache on disk) is \<open>'w\<close>.
\<close>

subsection \<open>Failures\<close>

text \<open>
  The module raises nothing by itself. Every failure comes from a call it makes:
  the client may fail, \<open>[0]\<close> on an empty response list fails, reading a variable
  past the end of the vector fails, and the date-range function fails on a zero
  frequency or on two instants of different time zones.
\<close>

datatype error =
    FetchError string
  | IndexError
  | VariableMissing nat
  | ZeroFrequency
  | TimezoneMismatch

definition bind_result :: "error + 'a \<Rightarrow> ('a \<Rightarrow> error + 'b) \<Rightarrow> error + 'b" where
  "bind_result r f = (case r of Inl e \<Rightarrow> Inl e | Inr x \<Rightarrow> f x)"

subsection \<open>Instants, time deltas and the date range\<close>

text \<open>
  An instant is its whole number of seconds since the epoch together with its time zone
  (\<open>None\<close> for a naive instant). Both call sites convert with \<open>unit = "s"\<close>, and the
  frequency is a whole number of seconds, so every instant that occurs is a whole second.
  The finite range of instants that the library can represent is not part of the model:
  \<open>Time\<close> and \<open>TimeEnd\<close> are unbounded integers here.
\<close>

record timestamp =
  epoch_seconds :: int
  tzinfo :: "string option"

text \<open>\<open>pd.to_datetime(arg, unit = "s", utc = utc)\<close>\<close>

definition to_datetime :: "int \<Rightarrow> bool \<Rightarrow> timestamp" where
  "to_datetime arg utc =
     \<lparr>epoch_seconds = arg, tzinfo = (if utc then Some ''UTC'' else None)\<rparr>"

text \<open>\<open>pd.Timedelta(seconds = s)\<close>, as a number of seconds.\<close>

definition Timedelta :: "int \<Rightarrow> int" where
  "Timedelta seconds = seconds"

record dt_index =
  stamps :: "int list"
  tz :: "string option"

datatype inclusive = Incl_both | Incl_neither | Incl_left | Incl_right

text \<open>
  The points \<open>start + k * freq\<close>, \<open>k = 0, 1, ...\<close>, that lie between \<open>start\<close>
  and \<open>stop\<close>, both ends included. For a positive frequency there are none when
  \<open>stop < start\<close>; for a negative frequency the points descend.
\<close>

definition regular_range :: "int \<Rightarrow> int \<Rightarrow> int \<Rightarrow> int list" where
  "regular_range start stop freq =
     map (\<lambda>k. start + int k * freq) [0..<nat ((stop - start) div freq + 1)]"

text \<open>
  Which end points \<open>inclusive\<close> keeps.
\<close>

fun left_inclusive :: "inclusive \<Rightarrow> bool" where
  "left_inclusive Incl_both = True"
| "left_inclusive Incl_left = True"
| "left_inclusive Incl_neither = False"
| "left_inclusive Incl_right = False"

fun right_inclusive :: "inclusive \<Rightarrow> bool" where
  "right_inclusive Incl_both = True"
| "right_inclusive Incl_right = True"
| "right_inclusive Incl_neither = False"
| "right_inclusive Incl_left = False"

text \<open>
  The trimming of the end points inside the date range. When the start and the end are the
  same instant, the points are cut to \<open>xs[1:-1]\<close> if neither end is kept and are left
  alone otherwise, so the single point stays. When they differ, the first point is dropped
  if the left end is not kept and the point is the start, and then the last point is dropped
  if the right end is not kept and the point is the end.
\<close>

definition trim_ends :: "inclusive \<Rightarrow> int \<Rightarrow> int \<Rightarrow> int list \<Rightarrow> int list" where
  "trim_ends incl start stop xs =
     (if start = stop then
        (if \<not> left_inclusive incl \<and> \<not> right_inclusive incl then butlast (tl xs) else xs)
      else
        (let ys = (if \<not> left_inclusive incl \<and> xs \<noteq> [] \<and> hd xs = start then tl xs else xs)
         in if \<not> right_inclusive incl \<and> ys \<noteq> [] \<and> last ys = stop then butlast ys else ys))"

text \<open>
  \<open>pd.date_range(start = .., end = .., freq = .., inclusive = ..)\<close>: the grid points
  between the two instants, trimmed at the ends as \<open>inclusive\<close> says, in the time zone
  of the two instants. The library refuses two instants of different time zones and cannot
  build a range for a frequency of zero. The trimming follows the library releases up to
  3.0.0, in which a range whose start equals its end keeps that single point for
  \<open>inclusive = "left"\<close>.
\<close>

definition date_range :: "timestamp \<Rightarrow> timestamp \<Rightarrow> int \<Rightarrow> inclusive \<Rightarrow> error + dt_index" where
  "date_range start stop freq incl =
     (if tzinfo start \<noteq> tzinfo stop then Inl TimezoneMismatch
      else if freq = 0 then Inl ZeroFrequency
      else Inr \<lparr>stamps = trim_ends incl (epoch_seconds start) (epoch_seconds stop)
                            (regular_range (epoch_seconds start) (epoch_seconds stop) freq),
                tz = tzinfo start\<rparr>)"

subsection \<open>The response of the upstream client\<close>

record 'v variable_with_values =
  ValuesAsNumpy :: "'v list"

record 'v hourly =
  Time :: int
  TimeEnd :: int
  Interval :: int
  variables :: "'v variable_with_values list"

text \<open>
  \<open>hourly.Variables(j)\<close>. The source reads positions 0 to 6 (0 to 3 for weather) without
  looking at the length of the vector; a read past its end is a failure of the call.
\<close>

definition Variables :: "'v hourly \<Rightarrow> nat \<Rightarrow> error + 'v variable_with_values" where
  "Variables h j = (if j < length (variables h) then Inr (variables h ! j) else Inl (VariableMissing j))"

record 'v response =
  Hourly :: "'v hourly"

record 'c params =
  latitude :: 'c
  longitude :: 'c
  start_date :: string
  end_date :: string
  hourly :: "string list"

text \<open>
  The cached, retrying session behind the client. The retry back-off factor (0.2 at both
  call sites) is a floating-point setting of the transport and is left out.
\<close>

record session =
  cache_name :: string
  expire_after :: int
  retries :: nat

text \<open>
  \<open>openmeteo_requests.Client(session).weather_api(url, params)\<close>: the one place
  where the module touches the outside world. It is a parameter of the model: given the
  session, the URL, the parameters and the state of the world, it returns the responses
  or a failure, and the new state of the world.
\<close>

type_synonym ('c, 'v, 'w) weather_api =
  "session \<Rightarrow> string \<Rightarrow> 'c params \<Rightarrow> 'w \<Rightarrow> (error + 'v response list) \<times> 'w"

text \<open>\<open>xs[0]\<close>\<close>

definition first_response :: "'a list \<Rightarrow> error + 'a" where
  "first_response xs = (case xs of [] \<Rightarrow> Inl IndexError | x # _ \<Rightarrow> Inr x)"

subsection \<open>The returned dictionary\<close>

text \<open>
  A Python dictionary keeps its keys in insertion order; assigning to a key that is
  present replaces the value in place, assigning to a new key appends it.
\<close>

datatype 'v column = DatetimeIndex dt_index | Ndarray "'v list"

type_synonym 'v dict = "(string \<times> 'v column) list"

fun dict_set :: "'v dict \<Rightarrow> string \<Rightarrow> 'v column \<Rightarrow> 'v dict" where
  "dict_set [] k v = [(k, v)]"
| "dict_set ((k', v') # d) k v =
     (if k' = k then (k, v) # d else (k', v') # dict_set d k v)"

definition dict_get :: "'v dict \<Rightarrow> string \<Rightarrow> 'v column option" where
  "dict_get d k = map_of d k"

definition dict_keys :: "'v dict \<Rightarrow> string list" where
  "dict_keys d = map fst d"

subsection \<open>Air quality\<close>

definition air_quality_url :: string where
  "air_quality_url = ''https://air-quality-api.open-meteo.com/v1/air-quality''"

definition air_quality_params :: "'c \<Rightarrow> 'c \<Rightarrow> string \<Rightarrow> string \<Rightarrow> 'c params" where
  "air_quality_params lat lon start stop =
     \<lparr>latitude = lat, longitude = lon, start_date = start, end_date = stop,
      hourly = [''pm10'', ''pm2_5'', ''sulphur_dioxide'', ''nitrogen_dioxide'', ''ozone'',
                ''carbon_monoxide'', ''european_aqi'']\<rparr>"

text \<open>Lines 39 to 64: from the hourly block of the response to the returned dictionary.\<close>

definition air_pollution_hourly_data :: "'v hourly \<Rightarrow> error + 'v dict" where
  "air_pollution_hourly_data h =
     bind_result (Variables h 0) (\<lambda>hourly_pm10.
     bind_result (Variables h 1) (\<lambda>hourly_pm2_5.
     bind_result (Variables h 2) (\<lambda>hourly_sulphur_dioxide.
     bind_result (Variables h 3) (\<lambda>hourly_nitrogen_dioxide.
     bind_result (Variables h 4) (\<lambda>hourly_ozone.
     bind_result (Variables h 5) (\<lambda>hourly_carbon_monoxide.
     bind_result (Variables h 6) (\<lambda>hourly_european_aqi.
     bind_result (date_range (to_datetime (Time h) True) (to_datetime (TimeEnd h) True)
                    (Timedelta (Interval h)) Incl_left) (\<lambda>date.
     let hourly_data = [(''date'', DatetimeIndex date)];
         hourly_data = dict_set hourly_data ''pm10'' (Ndarray (ValuesAsNumpy hourly_pm10));
         hourly_data = dict_set hourly_data ''pm2_5'' (Ndarray (ValuesAsNumpy hourly_pm2_5));
         hourly_data = dict_set hourly_data ''sulphur_dioxide''
                         (Ndarray (ValuesAsNumpy hourly_sulphur_dioxide));
         hourly_data = dict_set hourly_data ''nitrogen_dioxide''
                         (Ndarray (ValuesAsNumpy hourly_nitrogen_dioxide));
         hourly_data = dict_set hourly_data ''ozone'' (Ndarray (ValuesAsNumpy hourly_ozone));
         hourly_data = dict_set hourly_data ''carbon_monoxide''
                         (Ndarray (ValuesAsNumpy hourly_carbon_monoxide));
         hourly_data = dict_set hourly_data ''european_aqi''
                         (Ndarray (ValuesAsNumpy hourly_european_aqi))
     in Inr hourly_data))))))))"

definition get_air_pollution_history ::
  "('c, 'v, 'w) weather_api \<Rightarrow> 'c \<Rightarrow> 'c \<Rightarrow> string \<Rightarrow> string \<Rightarrow> 'w \<Rightarrow> (error + 'v dict) \<times> 'w" where
  "get_air_pollution_history weather_api lat lon start stop w =
     (let cache_session = \<lparr>cache_name = ''.cache'', expire_after = 3600, retries = 5\<rparr>;
          (responses, w') = weather_api cache_session air_quality_url
                              (air_quality_params lat lon start stop) w
      in (bind_result responses (\<lambda>rs.
          bind_result (first_response rs) (\<lambda>response.
          air_pollution_hourly_data (Hourly response))), w'))"

subsection \<open>Weather\<close>

definition weather_url :: string where
  "weather_url = ''https://archive-api.open-meteo.com/v1/archive''"

definition weather_params :: "'c \<Rightarrow> 'c \<Rightarrow> string \<Rightarrow> string \<Rightarrow> 'c params" where
  "weather_params lat lon start stop =
     \<lparr>latitude = lat, longitude = lon, start_date = start, end_date = stop,
      hourly = [''temperature_2m'', ''relative_humidity_2m'', ''rain'', ''dew_point_2m'']\<rparr>"

text \<open>Lines 97 to 116.\<close>

definition weather_hourly_data :: "'v hourly \<Rightarrow> error + 'v dict" where
  "weather_hourly_data h =
     bind_result (Variables h 0) (\<lambda>hourly_temperature_2m.
     bind_result (Variables h 1) (\<lambda>hourly_relative_humidity_2m.
     bind_result (Variables h 2) (\<lambda>hourly_rain.
     bind_result (Variables h 3) (\<lambda>hourly_dew_point_2m.
     bind_result (date_range (to_datetime (Time h) True) (to_datetime (TimeEnd h) True)
                    (Timedelta (Interval h)) Incl_left) (\<lambda>date.
     let hourly_data = [(''date'', DatetimeIndex date)];
         hourly_data = dict_set hourly_data ''temperature_2m''
                         (Ndarray (ValuesAsNumpy hourly_temperature_2m));
         hourly_data = dict_set hourly_data ''relative_humidity_2m''
                         (Ndarray (ValuesAsNumpy hourly_relative_humidity_2m));
         hourly_data = dict_set hourly_data ''rain'' (Ndarray (ValuesAsNumpy hourly_rain));
         hourly_data = dict_set hourly_data ''dew_point_2m''
                         (Ndarray (ValuesAsNumpy hourly_dew_point_2m))
     in Inr hourly_data)))))"

definition get_weather_history ::
  "('c, 'v, 'w) weather_api \<Rightarrow> 'c \<Rightarrow> 'c \<Rightarrow> string \<Rightarrow> string \<Rightarrow> 'w \<Rightarrow> (error + 'v dict) \<times> 'w" where
  "get_weather_history weather_api lat lon start stop w =
     (let cache_session = \<lparr>cache_name = ''.cache'', expire_after = - 1, retries = 5\<rparr>;
          (responses, w') = weather_api cache_session weather_url
                              (weather_params lat lon start stop) w
      in (bind_result responses (\<lambda>rs.
          bind_result (first_response rs) (\<lambda>response.
          weather_hourly_data (Hourly response))), w'))"

subsection \<open>The payload as the specification describes it\<close>

text \<open>
  A valid payload has a positive interval, an end after its start, and value arrays of one
  common length \<open>n\<close>. The invariant of the data model adds that \<open>n\<close> is the span
  divided by the interval, rounded down.
\<close>

definition valid_payload :: "'v hourly \<Rightarrow> nat \<Rightarrow> bool" where
  "valid_payload h n \<longleftrightarrow>
     0 < Interval h \<and> Time h < TimeEnd h \<and>
     list_all (\<lambda>v. length (ValuesAsNumpy v) = n) (variables h)"

definition payload_invariant :: "'v hourly \<Rightarrow> nat \<Rightarrow> bool" where
  "payload_invariant h n \<longleftrightarrow> int n = (TimeEnd h - Time h) div Interval h"

text \<open>
  The number of instants \<open>Time h + k * Interval h\<close> that lie before \<open>TimeEnd h\<close>:
  the span divided by the interval, rounded up.
\<close>

text \<open>
  The axis in the words of the specification: \<open>n\<close> instants
  \<open>start_time + k * interval_seconds\<close>, \<open>k = 0, ..., n - 1\<close>.
\<close>

definition spec_axis :: "'v hourly \<Rightarrow> nat \<Rightarrow> int list" where
  "spec_axis h n = map (\<lambda>k. Time h + int k * Interval h) [0..<n]"

definition axis_length :: "'v hourly \<Rightarrow> nat" where
  "axis_length h = nat ((TimeEnd h - Time h + Interval h - 1) div Interval h)"

text \<open>
  \<open>hourly_data[name][k]\<close>: the entry of a value column at a position.
\<close>

definition column_value :: "'v dict \<Rightarrow> string \<Rightarrow> nat \<Rightarrow> 'v option" where
  "column_value d name k =
     (case dict_get d name of
        Some (Ndarray vs) \<Rightarrow> if k < length vs then Some (vs ! k) else None
      | _ \<Rightarrow> None)"

text \<open>
  The specification reads the result as a mapping from a timestamp to a record with one
  field per variable. The code returns columns. \<open>assembled_value d t name\<close> is the
  keyed reading of the columns: the row of \<open>t\<close> is the first position of \<open>t\<close> on the
  \<open>date\<close> axis, and the field \<open>name\<close> of that row is the entry of column \<open>name\<close>
  at that position.
\<close>

fun index_of :: "'a \<Rightarrow> 'a list \<Rightarrow> nat option" where
  "index_of x [] = None"
| "index_of x (y # ys) = (if x = y then Some 0 else map_option Suc (index_of x ys))"

definition assembled_value :: "'v dict \<Rightarrow> int \<Rightarrow> string \<Rightarrow> 'v option" where
  "assembled_value d t name =
     (case dict_get d ''date'' of
        Some (DatetimeIndex idx) \<Rightarrow>
          (case index_of t (stamps idx) of
             Some k \<Rightarrow> column_value d name k
           | None \<Rightarrow> None)
      | _ \<Rightarrow> None)"

text \<open>
  The keyed reading of the result of a call; a failed call has no values.
\<close>

definition result_value :: "error + 'v dict \<Rightarrow> int \<Rightarrow> string \<Rightarrow> 'v option" where
  "result_value r t name = (case r of Inl e \<Rightarrow> None | Inr d \<Rightarrow> assembled_value d t name)"

text \<open>
  \<open>hourly_data["date"]\<close> as a list of epoch seconds, for a dictionary and for the
  result of a call; and the instants that iterating over an index yields, each with the
  time zone of the index.
\<close>

definition date_axis :: "'v dict \<Rightarrow> int list option" where
  "date_axis d =
     (case dict_get d ''date'' of Some (DatetimeIndex idx) \<Rightarrow> Some (stamps idx) | _ \<Rightarrow> None)"

definition result_axis :: "error + 'v dict \<Rightarrow> int list option" where
  "result_axis r = (case r of Inl e \<Rightarrow> None | Inr d \<Rightarrow> date_axis d)"

definition index_timestamps :: "dt_index \<Rightarrow> timestamp list" where
  "index_timestamps idx = map (\<lambda>s. \<lparr>epoch_seconds = s, tzinfo = tz idx\<rparr>) (stamps idx)"

subsection \<open>Sample payloads\<close>

text \<open>
  Three hours sampled hourly from 1700000000 seconds, for air quality and for weather, with
  integer values so that every position of every array is recognisable; the dictionaries
  expected for them; and a client that returns a given hourly block and counts its calls in
  the state of the world.
\<close>

definition sample_air :: "int hourly" where
  "sample_air = \<lparr>Time = 1700000000, TimeEnd = 1700010800, Interval = 3600,
     variables = map (\<lambda>j. \<lparr>ValuesAsNumpy = [10 * j + 1, 10 * j + 2, 10 * j + 3]\<rparr>) [0, 1, 2, 3, 4, 5, 6]\<rparr>"

definition sample_client :: "int hourly \<Rightarrow> (nat, int, nat) weather_api" where
  "sample_client h cache_session url ps w = (Inr [\<lparr>Hourly = h\<rparr>], Suc w)"

definition sample_weather :: "int hourly" where
  "sample_weather = \<lparr>Time = 1700000000, TimeEnd = 1700010800, Interval = 3600,
     variables = map (\<lambda>j. \<lparr>ValuesAsNumpy = [10 * j + 1, 10 * j + 2, 10 * j + 3]\<rparr>) [0, 1, 2, 3]\<rparr>"

definition sample_air_dict :: "int dict" where
  "sample_air_dict =
     [(''date'', DatetimeIndex \<lparr>stamps = [1700000000, 1700003600, 1700007200], tz = Some ''UTC''\<rparr>),
      (''pm10'', Ndarray [1, 2, 3]), (''pm2_5'', Ndarray [11, 12, 13]),
      (''sulphur_dioxide'', Ndarray [21, 22, 23]), (''nitrogen_dioxide'', Ndarray [31, 32, 33]),
      (''ozone'', Ndarray [41, 42, 43]), (''carbon_monoxide'', Ndarray [51, 52, 53]),
      (''european_aqi'', Ndarray [61, 62, 63])]"

definition sample_weather_dict :: "int dict" where
  "sample_weather_dict =
     [(''date'', DatetimeIndex \<lparr>stamps = [1700000000, 1700003600, 1700007200], tz = Some ''UTC''\<rparr>),
      (''temperature_2m'', Ndarray [1, 2, 3]), (''relative_humidity_2m'', Ndarray [11, 12, 13]),
      (''rain'', Ndarray [21, 22, 23]), (''dew_point_2m'', Ndarray [31, 32, 33])]"

text \<open>
  Spans that are not a multiple of the interval: two and a half hours sampled hourly with two
  values per array, and ten seconds sampled every three seconds with three values per array;
  in both the number of values is the span divided by the interval, rounded down. And a
  span of one hour sampled hourly with three values per array, more values than the span
  has instants.
\<close>

definition sample_uneven_weather :: "int hourly" where
  "sample_uneven_weather = \<lparr>Time = 1700000000, TimeEnd = 1700009000, Interval = 3600,
     variables = map (\<lambda>j. \<lparr>ValuesAsNumpy = [10 * j + 1, 10 * j + 2]\<rparr>) [0, 1, 2, 3]\<rparr>"

definition sample_short_span :: "int hourly" where
  "sample_short_span = \<lparr>Time = 1700000000, TimeEnd = 1700003600, Interval = 3600,
     variables = map (\<lambda>j. \<lparr>ValuesAsNumpy = [10 * j + 1, 10 * j + 2, 10 * j + 3]\<rparr>) [0, 1, 2, 3, 4, 5, 6]\<rparr>"

definition sample_uneven_air :: "int hourly" where
  "sample_uneven_air = \<lparr>Time = 0, TimeEnd = 10, Interval = 3,
     variables = map (\<lambda>j. \<lparr>ValuesAsNumpy = [10 * j + 1, 10 * j + 2, 10 * j + 3]\<rparr>) [0, 1, 2, 3, 4, 5, 6]\<rparr>"

text \<open>
  Payloads that the specification rejects: a negative interval, two arrays of lengths 5 and
  4, an end equal to the start, and an end one hour before the start.
\<close>

definition sample_negative_interval :: "int hourly" where
  "sample_negative_interval = \<lparr>Time = 1700000000, TimeEnd = 1700010800, Interval = - 3600,
     variables = map (\<lambda>j. \<lparr>ValuesAsNumpy = [10 * j + 1, 10 * j + 2, 10 * j + 3]\<rparr>) [0, 1, 2, 3, 4, 5, 6]\<rparr>"

definition sample_unequal_lengths :: "int hourly" where
  "sample_unequal_lengths = \<lparr>Time = 1700000000, TimeEnd = 1700018000, Interval = 3600,
     variables = [\<lparr>ValuesAsNumpy = [1, 2, 3, 4, 5]\<rparr>, \<lparr>ValuesAsNumpy = [11, 12, 13, 14]\<rparr>,
                  \<lparr>ValuesAsNumpy = [21, 22, 23, 24, 25]\<rparr>, \<lparr>ValuesAsNumpy = [31, 32, 33, 34, 35]\<rparr>,
                  \<lparr>ValuesAsNumpy = [41, 42, 43, 44, 45]\<rparr>, \<lparr>ValuesAsNumpy = [51, 52, 53, 54, 55]\<rparr>,
                  \<lparr>ValuesAsNumpy = [61, 62, 63, 64, 65]\<rparr>]\<rparr>"

definition sample_empty_range :: "int hourly" where
  "sample_empty_range = \<lparr>Time = 1700000000, TimeEnd = 1700000000, Interval = 3600,
     variables = map (\<lambda>j. \<lparr>ValuesAsNumpy = []\<rparr>) [0, 1, 2, 3, 4, 5, 6 :: int]\<rparr>"

definition sample_reversed_range :: "int hourly" where
  "sample_reversed_range = \<lparr>Time = 1700003600, TimeEnd = 1700000000, Interval = 3600,
     variables = map (\<lambda>j. \<lparr>ValuesAsNumpy = []\<rparr>) [0, 1, 2, 3, 4, 5, 6 :: int]\<rparr>"

section \<open>Properties\<close>

subsection \<open>The timestamp axis\<close>

lemma ceil_div_split:
  fixes d freq :: int
  assumes "0 < freq"
  shows "(d + freq - 1) div freq = (if freq dvd d then d div freq else d div freq + 1)"
proof (cases "freq dvd d")
  case True
  then obtain q where "d = freq * q" by (auto simp: dvd_def)
  then have d: "d = q * freq" by (simp add: mult.commute)
  have "d + freq - 1 = (freq - 1) + q * freq" using d by arith
  then have "(d + freq - 1) div freq = ((freq - 1) + q * freq) div freq" by (simp only:)
  also have "\<dots> = q + (freq - 1) div freq" using assms by simp
  also have "(freq - 1) div freq = 0" using assms by (simp add: div_pos_pos_trivial)
  finally show ?thesis using True assms by (simp add: d)
next
  case False
  define q where "q = d div freq"
  define r where "r = d mod freq"
  have d: "d = r + q * freq" by (simp add: q_def r_def)
  have "0 \<le> r" and rlt: "r < freq" using assms by (simp_all add: r_def)
  moreover have "r \<noteq> 0" using False by (simp add: r_def dvd_eq_mod_eq_0)
  ultimately have r: "0 < r" "r < freq" by simp_all
  have "d + freq - 1 = (r - 1) + (q + 1) * freq" using d by (simp add: algebra_simps)
  then have "(d + freq - 1) div freq = ((r - 1) + (q + 1) * freq) div freq" by (simp only:)
  also have "\<dots> = (q + 1) + (r - 1) div freq" using assms by simp
  also have "(r - 1) div freq = 0" using r by (simp add: div_pos_pos_trivial)
  finally show ?thesis using False by (simp add: q_def)
qed

lemma regular_range_last:
  assumes "0 \<le> (stop - start) div freq"
  shows "regular_range start stop freq \<noteq> []"
    and "last (regular_range start stop freq) = start + ((stop - start) div freq) * freq"
  using assms by (simp_all add: regular_range_def last_map nat_add_distrib)

lemma trim_ends_left:
  assumes "start \<noteq> stop"
  shows "trim_ends Incl_left start stop xs =
           (if xs \<noteq> [] \<and> last xs = stop then butlast xs else xs)"
  using assms by (simp add: trim_ends_def)

lemma trim_ends_left_single: "trim_ends Incl_left start start xs = xs"
  by (simp add: trim_ends_def)

lemma left_range_pos:
  assumes "0 < freq" and "start \<noteq> stop"
  shows "trim_ends Incl_left start stop (regular_range start stop freq) =
           map (\<lambda>k. start + int k * freq) [0..<nat ((stop - start + freq - 1) div freq)]"
proof (cases "0 \<le> (stop - start) div freq")
  case False
  then have neg: "(stop - start) div freq < 0" by simp
  then have "(stop - start) div freq + 1 \<le> 0" by simp
  moreover have "(stop - start + freq - 1) div freq \<le> (stop - start) div freq + 1"
    using ceil_div_split [OF assms(1), of "stop - start"] by (simp split: if_splits)
  ultimately show ?thesis by (simp add: regular_range_def trim_ends_left [OF assms(2)])
next
  case True
  note nonempty = regular_range_last [OF True]
  have "((stop - start) div freq) * freq = (stop - start) - (stop - start) mod freq"
    by (simp add: minus_mod_eq_div_mult)
  then have dvd_iff: "start + ((stop - start) div freq) * freq = stop \<longleftrightarrow> freq dvd (stop - start)"
    by (auto simp: dvd_eq_mod_eq_0)
  show ?thesis
  proof (cases "freq dvd (stop - start)")
    case dv: True
    have "(stop - start + freq - 1) div freq = (stop - start) div freq"
      using ceil_div_split [OF assms(1), of "stop - start"] dv by simp
    moreover have "butlast (regular_range start stop freq) =
        map (\<lambda>k. start + int k * freq) [0..<nat ((stop - start) div freq)]"
      using True by (simp add: regular_range_def map_butlast [symmetric] nat_add_distrib)
    ultimately show ?thesis
      using nonempty dvd_iff dv by (simp add: trim_ends_left [OF assms(2)])
  next
    case ndv: False
    have "(stop - start + freq - 1) div freq = (stop - start) div freq + 1"
      using ceil_div_split [OF assms(1), of "stop - start"] ndv by simp
    then show ?thesis
      using nonempty dvd_iff ndv by (simp add: regular_range_def trim_ends_left [OF assms(2)])
  qed
qed

subsection \<open>The dictionary in closed form\<close>

lemma air_pollution_hourly_data_ok:
  assumes "7 \<le> length (variables h)" and "Interval h \<noteq> 0"
  shows "air_pollution_hourly_data h = Inr
    [(''date'', DatetimeIndex \<lparr>stamps = trim_ends Incl_left (Time h) (TimeEnd h)
                                  (regular_range (Time h) (TimeEnd h) (Interval h)),
                                tz = Some ''UTC''\<rparr>),
     (''pm10'', Ndarray (ValuesAsNumpy (variables h ! 0))),
     (''pm2_5'', Ndarray (ValuesAsNumpy (variables h ! 1))),
     (''sulphur_dioxide'', Ndarray (ValuesAsNumpy (variables h ! 2))),
     (''nitrogen_dioxide'', Ndarray (ValuesAsNumpy (variables h ! 3))),
     (''ozone'', Ndarray (ValuesAsNumpy (variables h ! 4))),
     (''carbon_monoxide'', Ndarray (ValuesAsNumpy (variables h ! 5))),
     (''european_aqi'', Ndarray (ValuesAsNumpy (variables h ! 6)))]"
proof -
  have "variables h \<noteq> []" using assms by auto
  then show ?thesis using assms
  by (simp add: air_pollution_hourly_data_def Variables_def bind_result_def date_range_def
      to_datetime_def Timedelta_def)
qed

lemma weather_hourly_data_ok:
  assumes "4 \<le> length (variables h)" and "Interval h \<noteq> 0"
  shows "weather_hourly_data h = Inr
    [(''date'', DatetimeIndex \<lparr>stamps = trim_ends Incl_left (Time h) (TimeEnd h)
                                  (regular_range (Time h) (TimeEnd h) (Interval h)),
                                tz = Some ''UTC''\<rparr>),
     (''temperature_2m'', Ndarray (ValuesAsNumpy (variables h ! 0))),
     (''relative_humidity_2m'', Ndarray (ValuesAsNumpy (variables h ! 1))),
     (''rain'', Ndarray (ValuesAsNumpy (variables h ! 2))),
     (''dew_point_2m'', Ndarray (ValuesAsNumpy (variables h ! 3)))]"
proof -
  have "variables h \<noteq> []" using assms by auto
  then show ?thesis using assms
  by (simp add: weather_hourly_data_def Variables_def bind_result_def date_range_def
      to_datetime_def Timedelta_def)
qed

subsection \<open>When a dictionary is returned\<close>

lemma air_pollution_hourly_data_Inr:
  assumes "air_pollution_hourly_data h = Inr d"
  shows "7 \<le> length (variables h) \<and> Interval h \<noteq> 0"
proof (rule ccontr)
  assume "\<not> ?thesis"
  then have "\<exists>e. air_pollution_hourly_data h = Inl e"
    by (auto simp: air_pollution_hourly_data_def Variables_def bind_result_def date_range_def
        to_datetime_def Timedelta_def)
  with assms show False by auto
qed

lemma weather_hourly_data_Inr:
  assumes "weather_hourly_data h = Inr d"
  shows "4 \<le> length (variables h) \<and> Interval h \<noteq> 0"
proof (rule ccontr)
  assume "\<not> ?thesis"
  then have "\<exists>e. weather_hourly_data h = Inl e"
    by (auto simp: weather_hourly_data_def Variables_def bind_result_def date_range_def
        to_datetime_def Timedelta_def)
  with assms show False by auto
qed

lemma get_air_pollution_history_Inr:
  assumes "fst (get_air_pollution_history api lat lon start stop w) = Inr d"
  shows "\<exists>r rs. fst (api \<lparr>cache_name = ''.cache'', expire_after = 3600, retries = 5\<rparr>
                        air_quality_url (air_quality_params lat lon start stop) w) = Inr (r # rs)
               \<and> air_pollution_hourly_data (Hourly r) = Inr d"
  using assms
  by (auto simp: get_air_pollution_history_def bind_result_def first_response_def
      split: prod.splits sum.splits list.splits)

lemma get_weather_history_Inr:
  assumes "fst (get_weather_history api lat lon start stop w) = Inr d"
  shows "\<exists>r rs. fst (api \<lparr>cache_name = ''.cache'', expire_after = - 1, retries = 5\<rparr>
                        weather_url (weather_params lat lon start stop) w) = Inr (r # rs)
               \<and> weather_hourly_data (Hourly r) = Inr d"
  using assms
  by (auto simp: get_weather_history_def bind_result_def first_response_def
      split: prod.splits sum.splits list.splits)

lemma below_seven: "i < 7 \<Longrightarrow> i = 0 \<or> i = 1 \<or> i = 2 \<or> i = 3 \<or> i = 4 \<or> i = 5 \<or> i = (6::nat)"
  by arith

lemma below_four: "i < 4 \<Longrightarrow> i = 0 \<or> i = 1 \<or> i = 2 \<or> i = (3::nat)"
  by arith

lemma air_columns:
  assumes "air_pollution_hourly_data h = Inr d"
    and "i < length (hourly (air_quality_params lat lon start stop))"
  shows "Variables h i = Inr (variables h ! i)"
    and "dict_get d (hourly (air_quality_params lat lon start stop) ! i) =
           Some (Ndarray (ValuesAsNumpy (variables h ! i)))"
    and "dict_keys d ! Suc i = hourly (air_quality_params lat lon start stop) ! i"
proof -
  have ok: "7 \<le> length (variables h)" "Interval h \<noteq> 0"
    using air_pollution_hourly_data_Inr [OF assms(1)] by simp_all
  have i: "i < 7" using assms(2) by (simp add: air_quality_params_def)
  show "Variables h i = Inr (variables h ! i)" using ok i by (simp add: Variables_def)
  have d: "d = [(''date'', DatetimeIndex \<lparr>stamps = trim_ends Incl_left (Time h) (TimeEnd h)
                                  (regular_range (Time h) (TimeEnd h) (Interval h)),
                                tz = Some ''UTC''\<rparr>),
     (''pm10'', Ndarray (ValuesAsNumpy (variables h ! 0))),
     (''pm2_5'', Ndarray (ValuesAsNumpy (variables h ! 1))),
     (''sulphur_dioxide'', Ndarray (ValuesAsNumpy (variables h ! 2))),
     (''nitrogen_dioxide'', Ndarray (ValuesAsNumpy (variables h ! 3))),
     (''ozone'', Ndarray (ValuesAsNumpy (variables h ! 4))),
     (''carbon_monoxide'', Ndarray (ValuesAsNumpy (variables h ! 5))),
     (''european_aqi'', Ndarray (ValuesAsNumpy (variables h ! 6)))]"
    using air_pollution_hourly_data_ok [OF ok] assms(1) by simp
  show "dict_get d (hourly (air_quality_params lat lon start stop) ! i) =
           Some (Ndarray (ValuesAsNumpy (variables h ! i)))"
    using below_seven [OF i] by (auto simp: d dict_get_def air_quality_params_def)
  show "dict_keys d ! Suc i = hourly (air_quality_params lat lon start stop) ! i"
    using below_seven [OF i] by (auto simp: d dict_keys_def air_quality_params_def)
qed

lemma weather_columns:
  assumes "weather_hourly_data h = Inr d"
    and "i < length (hourly (weather_params lat lon start stop))"
  shows "Variables h i = Inr (variables h ! i)"
    and "dict_get d (hourly (weather_params lat lon start stop) ! i) =
           Some (Ndarray (ValuesAsNumpy (variables h ! i)))"
    and "dict_keys d ! Suc i = hourly (weather_params lat lon start stop) ! i"
proof -
  have ok: "4 \<le> length (variables h)" "Interval h \<noteq> 0"
    using weather_hourly_data_Inr [OF assms(1)] by simp_all
  have i: "i < 4" using assms(2) by (simp add: weather_params_def)
  show "Variables h i = Inr (variables h ! i)" using ok i by (simp add: Variables_def)
  have d: "d = [(''date'', DatetimeIndex \<lparr>stamps = trim_ends Incl_left (Time h) (TimeEnd h)
                                  (regular_range (Time h) (TimeEnd h) (Interval h)),
                                tz = Some ''UTC''\<rparr>),
     (''temperature_2m'', Ndarray (ValuesAsNumpy (variables h ! 0))),
     (''relative_humidity_2m'', Ndarray (ValuesAsNumpy (variables h ! 1))),
     (''rain'', Ndarray (ValuesAsNumpy (variables h ! 2))),
     (''dew_point_2m'', Ndarray (ValuesAsNumpy (variables h ! 3)))]"
    using weather_hourly_data_ok [OF ok] assms(1) by simp
  show "dict_get d (hourly (weather_params lat lon start stop) ! i) =
           Some (Ndarray (ValuesAsNumpy (variables h ! i)))"
    using below_four [OF i] by (auto simp: d dict_get_def weather_params_def)
  show "dict_keys d ! Suc i = hourly (weather_params lat lon start stop) ! i"
    using below_four [OF i] by (auto simp: d dict_keys_def weather_params_def)
qed

lemma air_keys:
  assumes "air_pollution_hourly_data h = Inr d"
  shows "dict_keys d = ''date'' # hourly (air_quality_params lat lon start stop)"
    and "\<exists>idx. dict_get d ''date'' = Some (DatetimeIndex idx) \<and> tz idx = Some ''UTC'' \<and>
           stamps idx = trim_ends Incl_left (Time h) (TimeEnd h)
                          (regular_range (Time h) (TimeEnd h) (Interval h))"
proof -
  have ok: "7 \<le> length (variables h)" "Interval h \<noteq> 0"
    using air_pollution_hourly_data_Inr [OF assms(1)] by simp_all
  note d = air_pollution_hourly_data_ok [OF ok, unfolded assms(1), simplified]
  show "dict_keys d = ''date'' # hourly (air_quality_params lat lon start stop)"
    by (simp add: d dict_keys_def air_quality_params_def)
  show "\<exists>idx. dict_get d ''date'' = Some (DatetimeIndex idx) \<and> tz idx = Some ''UTC'' \<and>
           stamps idx = trim_ends Incl_left (Time h) (TimeEnd h)
                          (regular_range (Time h) (TimeEnd h) (Interval h))"
    by (simp add: d dict_get_def)
qed

lemma weather_keys:
  assumes "weather_hourly_data h = Inr d"
  shows "dict_keys d = ''date'' # hourly (weather_params lat lon start stop)"
    and "\<exists>idx. dict_get d ''date'' = Some (DatetimeIndex idx) \<and> tz idx = Some ''UTC'' \<and>
           stamps idx = trim_ends Incl_left (Time h) (TimeEnd h)
                          (regular_range (Time h) (TimeEnd h) (Interval h))"
proof -
  have ok: "4 \<le> length (variables h)" "Interval h \<noteq> 0"
    using weather_hourly_data_Inr [OF assms(1)] by simp_all
  note d = weather_hourly_data_ok [OF ok, unfolded assms(1), simplified]
  show "dict_keys d = ''date'' # hourly (weather_params lat lon start stop)"
    by (simp add: d dict_keys_def weather_params_def)
  show "\<exists>idx. dict_get d ''date'' = Some (DatetimeIndex idx) \<and> tz idx = Some ''UTC'' \<and>
           stamps idx = trim_ends Incl_left (Time h) (TimeEnd h)
                          (regular_range (Time h) (TimeEnd h) (Interval h))"
    by (simp add: d dict_get_def)
qed

subsection \<open>Binding of names to positions\<close>

text \<open>
  Claim C7. Whenever the hourly block is turned into a dictionary, the \<open>i\<close>-th requested
  name is bound to the array read at position \<open>i\<close> of the response, for air quality
  (seven names, positions 0 to 6) and for weather (four names, positions 0 to 3); the
  request lists the names in the order given here.
\<close>

theorem variables_bound_in_request_order:
  "(air_pollution_hourly_data h = Inr d \<and> i < length (hourly (air_quality_params lat lon start stop)) \<longrightarrow>
      (\<exists>v. Variables h i = Inr v \<and>
           dict_get d (hourly (air_quality_params lat lon start stop) ! i) = Some (Ndarray (ValuesAsNumpy v))))
   \<and> (weather_hourly_data h = Inr d \<and> i < length (hourly (weather_params lat lon start stop)) \<longrightarrow>
      (\<exists>v. Variables h i = Inr v \<and>
           dict_get d (hourly (weather_params lat lon start stop) ! i) = Some (Ndarray (ValuesAsNumpy v))))
   \<and> hourly (air_quality_params lat lon start stop) =
        [''pm10'', ''pm2_5'', ''sulphur_dioxide'', ''nitrogen_dioxide'', ''ozone'',
         ''carbon_monoxide'', ''european_aqi'']
   \<and> hourly (weather_params lat lon start stop) =
        [''temperature_2m'', ''relative_humidity_2m'', ''rain'', ''dew_point_2m'']"
  using air_columns(1,2) [of h d i lat lon start stop] weather_columns(1,2) [of h d i lat lon start stop]
  by (simp add: air_quality_params_def weather_params_def)

theorem variables_bound_in_request_order_witness:
  "(\<exists>d. air_pollution_hourly_data sample_air = Inr d \<and>
        dict_get d ''sulphur_dioxide'' = Some (Ndarray [21, 22, 23]))
   \<and> (\<exists>d. weather_hourly_data sample_weather = Inr d \<and>
        dict_get d ''rain'' = Some (Ndarray [21, 22, 23]))"
proof -
  obtain d where d: "air_pollution_hourly_data sample_air = Inr d"
    using air_pollution_hourly_data_ok [of sample_air] by (simp add: sample_air_def)
  obtain d' where d': "weather_hourly_data sample_weather = Inr d'"
    using weather_hourly_data_ok [of sample_weather] by (simp add: sample_weather_def)
  have "dict_get d ''sulphur_dioxide'' = Some (Ndarray [21, 22, 23])"
    using variables_bound_in_request_order [of sample_air d 2 "0::nat" 0 "''''" "''''"] d
    by (simp add: air_quality_params_def Variables_def sample_air_def)
  moreover have "dict_get d' ''rain'' = Some (Ndarray [21, 22, 23])"
    using variables_bound_in_request_order [of sample_weather d' 2 "0::nat" 0 "''''" "''''"] d'
    by (simp add: weather_params_def Variables_def sample_weather_def)
  ultimately show ?thesis using d d' by simp
qed

subsection \<open>Time zone of the axis\<close>

lemma trim_left_subset: "set (trim_ends Incl_left start stop xs) \<subseteq> set xs"
  by (auto simp: trim_ends_def dest: in_set_butlastD)

lemma regular_range_member:
  "t \<in> set (regular_range start stop freq) \<Longrightarrow> \<exists>k. t = start + int k * freq"
  by (auto simp: regular_range_def)

text \<open>
  Claim C9. Both functions convert \<open>Time\<close> and \<open>TimeEnd\<close>, read as seconds since
  the epoch, with \<open>utc = True\<close> before the range is built, and every instant on the
  \<open>date\<close> axis of a returned dictionary is aware of its time zone, which is UTC, and
  lies a whole number of intervals from \<open>Time\<close>.
\<close>

theorem axis_instants_are_utc:
  "(air_pollution_hourly_data h = Inr d \<longrightarrow>
      (\<exists>idx. dict_get d ''date'' = Some (DatetimeIndex idx) \<and>
         tz idx = Some ''UTC'' \<and>
         (\<forall>t \<in> set (index_timestamps idx).
            tzinfo t = Some ''UTC'' \<and> (\<exists>k. epoch_seconds t = Time h + int k * Interval h))))
   \<and> (weather_hourly_data h = Inr d \<longrightarrow>
      (\<exists>idx. dict_get d ''date'' = Some (DatetimeIndex idx) \<and>
         tz idx = Some ''UTC'' \<and>
         (\<forall>t \<in> set (index_timestamps idx).
            tzinfo t = Some ''UTC'' \<and> (\<exists>k. epoch_seconds t = Time h + int k * Interval h))))
   \<and> to_datetime (Time h) True = \<lparr>epoch_seconds = Time h, tzinfo = Some ''UTC''\<rparr>
   \<and> to_datetime (TimeEnd h) True = \<lparr>epoch_seconds = TimeEnd h, tzinfo = Some ''UTC''\<rparr>"
proof -
  have inst: "\<forall>t \<in> set (index_timestamps idx).
      tzinfo t = Some ''UTC'' \<and> (\<exists>k. epoch_seconds t = Time h + int k * Interval h)"
    if "tz idx = Some ''UTC''"
      and "stamps idx = trim_ends Incl_left (Time h) (TimeEnd h)
                          (regular_range (Time h) (TimeEnd h) (Interval h))" for idx
  proof
    fix t assume "t \<in> set (index_timestamps idx)"
    then obtain s where s: "s \<in> set (stamps idx)" and t: "t = \<lparr>epoch_seconds = s, tzinfo = tz idx\<rparr>"
      by (auto simp: index_timestamps_def)
    have "set (stamps idx) \<subseteq> set (regular_range (Time h) (TimeEnd h) (Interval h))"
      unfolding that(2) by (rule trim_left_subset)
    with s have "s \<in> set (regular_range (Time h) (TimeEnd h) (Interval h))" by blast
    then show "tzinfo t = Some ''UTC'' \<and> (\<exists>k. epoch_seconds t = Time h + int k * Interval h)"
      using regular_range_member that(1) by (simp add: t)
  qed
  show ?thesis
    using air_keys(2) [of h d] weather_keys(2) [of h d] inst
    by (auto simp: to_datetime_def)
qed

lemma sample_air_result: "air_pollution_hourly_data sample_air = Inr sample_air_dict"
  by code_simp

lemma sample_weather_result: "weather_hourly_data sample_weather = Inr sample_weather_dict"
  by code_simp

theorem axis_instants_are_utc_witness:
  "air_pollution_hourly_data sample_air = Inr sample_air_dict
   \<and> weather_hourly_data sample_weather = Inr sample_weather_dict
   \<and> list_all (\<lambda>t. tzinfo t = Some ''UTC'')
        (index_timestamps \<lparr>stamps = [1700000000, 1700003600, 1700007200], tz = Some ''UTC''\<rparr>)
   \<and> list_all (\<lambda>t. \<exists>k. epoch_seconds t = 1700000000 + int k * 3600)
        (index_timestamps \<lparr>stamps = [1700000000, 1700003600, 1700007200], tz = Some ''UTC''\<rparr>)"
  using axis_instants_are_utc [THEN conjunct1, rule_format, OF sample_air_result]
    axis_instants_are_utc [THEN conjunct2, THEN conjunct1, rule_format, OF sample_weather_result]
    sample_air_result sample_weather_result
  by (simp add: dict_get_def sample_air_dict_def sample_weather_dict_def sample_weather_def
      list_all_iff)

subsection \<open>Keys of the returned dictionary\<close>

text \<open>
  Claim C10. A dictionary returned by either function has the key \<open>date\<close> first, bound to
  the timestamp axis, then the requested names in request order, each bound to an array,
  and no other key: eight distinct keys for air quality, five for weather.
\<close>

theorem returned_keys:
  "(fst (get_air_pollution_history api lat lon start stop w) = Inr d \<longrightarrow>
      dict_keys d = ''date'' # hourly (air_quality_params lat lon start stop) \<and>
      length (dict_keys d) = 8 \<and> distinct (dict_keys d) \<and>
      (\<exists>idx. dict_get d ''date'' = Some (DatetimeIndex idx)) \<and>
      (\<forall>name \<in> set (hourly (air_quality_params lat lon start stop)).
         \<exists>vs. dict_get d name = Some (Ndarray vs)))
   \<and> (fst (get_weather_history api lat lon start stop w) = Inr d \<longrightarrow>
      dict_keys d = ''date'' # hourly (weather_params lat lon start stop) \<and>
      length (dict_keys d) = 5 \<and> distinct (dict_keys d) \<and>
      (\<exists>idx. dict_get d ''date'' = Some (DatetimeIndex idx)) \<and>
      (\<forall>name \<in> set (hourly (weather_params lat lon start stop)).
         \<exists>vs. dict_get d name = Some (Ndarray vs)))"
proof (intro conjI impI)
  assume "fst (get_air_pollution_history api lat lon start stop w) = Inr d"
  from get_air_pollution_history_Inr [OF this]
  obtain r where r: "air_pollution_hourly_data r = Inr d" by auto
  show keys: "dict_keys d = ''date'' # hourly (air_quality_params lat lon start stop)"
    by (rule air_keys(1) [OF r])
  show "length (dict_keys d) = 8" by (simp add: keys air_quality_params_def)
  show "distinct (dict_keys d)" by (simp add: keys air_quality_params_def)
  show "\<exists>idx. dict_get d ''date'' = Some (DatetimeIndex idx)"
    using air_keys(2) [OF r] by blast
  show "\<forall>name \<in> set (hourly (air_quality_params lat lon start stop)).
         \<exists>vs. dict_get d name = Some (Ndarray vs)"
    using air_columns(2) [OF r, of _ lat lon start stop] by (auto simp: in_set_conv_nth)
next
  assume "fst (get_weather_history api lat lon start stop w) = Inr d"
  from get_weather_history_Inr [OF this]
  obtain r where r: "weather_hourly_data r = Inr d" by auto
  show keys: "dict_keys d = ''date'' # hourly (weather_params lat lon start stop)"
    by (rule weather_keys(1) [OF r])
  show "length (dict_keys d) = 5" by (simp add: keys weather_params_def)
  show "distinct (dict_keys d)" by (simp add: keys weather_params_def)
  show "\<exists>idx. dict_get d ''date'' = Some (DatetimeIndex idx)"
    using weather_keys(2) [OF r] by blast
  show "\<forall>name \<in> set (hourly (weather_params lat lon start stop)).
         \<exists>vs. dict_get d name = Some (Ndarray vs)"
    using weather_columns(2) [OF r, of _ lat lon start stop] by (auto simp: in_set_conv_nth)
qed

lemma sample_air_call:
  "get_air_pollution_history (sample_client sample_air) 52 13 ''2023-11-14'' ''2023-11-14'' w =
     (Inr sample_air_dict, Suc w)"
  by (simp add: get_air_pollution_history_def sample_client_def bind_result_def
      first_response_def sample_air_result)

lemma sample_weather_call:
  "get_weather_history (sample_client sample_weather) 52 13 ''2023-11-14'' ''2023-11-14'' w =
     (Inr sample_weather_dict, Suc w)"
  by (simp add: get_weather_history_def sample_client_def bind_result_def
      first_response_def sample_weather_result)

theorem returned_keys_witness:
  "fst (get_air_pollution_history (sample_client sample_air) 52 13 ''2023-11-14'' ''2023-11-14'' 0)
     = Inr sample_air_dict
   \<and> dict_keys sample_air_dict =
       [''date'', ''pm10'', ''pm2_5'', ''sulphur_dioxide'', ''nitrogen_dioxide'', ''ozone'',
        ''carbon_monoxide'', ''european_aqi'']
   \<and> fst (get_weather_history (sample_client sample_weather) 52 13 ''2023-11-14'' ''2023-11-14'' 0)
     = Inr sample_weather_dict
   \<and> dict_keys sample_weather_dict =
       [''date'', ''temperature_2m'', ''relative_humidity_2m'', ''rain'', ''dew_point_2m'']"
proof -
  have a: "fst (get_air_pollution_history (sample_client sample_air) 52 13 ''2023-11-14'' ''2023-11-14'' 0)
     = Inr sample_air_dict"
    by (simp add: sample_air_call)
  have b: "fst (get_weather_history (sample_client sample_weather) 52 13 ''2023-11-14'' ''2023-11-14'' 0)
     = Inr sample_weather_dict"
    by (simp add: sample_weather_call)
  show ?thesis
    using a b returned_keys [THEN conjunct1, rule_format, OF a]
      returned_keys [THEN conjunct2, rule_format, OF b]
    by (simp add: air_quality_params_def weather_params_def)
qed

subsection \<open>Shape of the axis\<close>

lemma index_of_nth:
  "distinct xs \<Longrightarrow> k < length xs \<Longrightarrow> index_of (xs ! k) xs = Some k"
proof (induction xs arbitrary: k)
  case Nil
  then show ?case by simp
next
  case (Cons x xs)
  show ?case
  proof (cases k)
    case 0
    then show ?thesis by simp
  next
    case (Suc j)
    with Cons.prems have "xs ! j \<noteq> x" "j < length xs" "distinct xs" by auto
    with Cons.IH [of j] Suc show ?thesis by auto
  qed
qed

lemma below_axis_length:
  assumes "0 < Interval h" and "k < axis_length h"
  shows "Time h + int k * Interval h < TimeEnd h"
proof -
  define d where "d = TimeEnd h - Time h"
  define c where "c = (d + Interval h - 1) div Interval h"
  have "int k < c" using assms(2) by (simp add: axis_length_def c_def d_def)
  then have "int k + 1 \<le> c" by simp
  then have "(int k + 1) * Interval h \<le> c * Interval h"
    using assms(1) by (simp add: mult_right_mono)
  also have "c * Interval h = (d + Interval h - 1) - (d + Interval h - 1) mod Interval h"
    by (simp add: c_def minus_mod_eq_div_mult)
  also have "\<dots> \<le> d + Interval h - 1"
  proof -
    have "0 \<le> (d + Interval h - 1) mod Interval h" using assms(1) by simp
    then show ?thesis by arith
  qed
  finally have "int k * Interval h < d" by (simp add: algebra_simps)
  then show ?thesis by (simp add: d_def)
qed

lemma spec_axis_sorted:
  assumes "0 < Interval h"
  shows "sorted_wrt (<) (spec_axis h (axis_length h))"
  using assms by (simp add: spec_axis_def sorted_wrt_map sorted_wrt_iff_nth_less)

lemma spec_axis_distinct:
  assumes "0 < Interval h"
  shows "distinct (spec_axis h (axis_length h))"
  using assms by (simp add: spec_axis_def distinct_map inj_on_def)

lemma axis_length_pos:
  assumes "0 < Interval h" and "Time h < TimeEnd h"
  shows "0 < axis_length h"
proof -
  have "Interval h \<le> TimeEnd h - Time h + Interval h - 1" using assms by simp
  then have "0 < (TimeEnd h - Time h + Interval h - 1) div Interval h"
    using assms(1) by (simp only: pos_imp_zdiv_pos_iff)
  then show ?thesis by (simp add: axis_length_def)
qed

lemma axis_length_cases:
  assumes "0 < Interval h" and "Time h < TimeEnd h" and "payload_invariant h n"
  shows "axis_length h = (if Interval h dvd TimeEnd h - Time h then n else Suc n)"
proof -
  have "0 \<le> (TimeEnd h - Time h) div Interval h"
    using assms(1,2) by (simp add: pos_imp_zdiv_nonneg_iff)
  then show ?thesis
    using ceil_div_split [OF assms(1), of "TimeEnd h - Time h"] assms(3)
    by (auto simp: axis_length_def payload_invariant_def nat_add_distrib)
qed

lemma result_axis_air:
  assumes "7 \<le> length (variables h)" and "0 < Interval h" and "Time h \<noteq> TimeEnd h"
  shows "result_axis (air_pollution_hourly_data h) = Some (spec_axis h (axis_length h))"
  using assms
  by (simp add: air_pollution_hourly_data_ok result_axis_def date_axis_def dict_get_def
      left_range_pos spec_axis_def axis_length_def)

lemma result_axis_weather:
  assumes "4 \<le> length (variables h)" and "0 < Interval h" and "Time h \<noteq> TimeEnd h"
  shows "result_axis (weather_hourly_data h) = Some (spec_axis h (axis_length h))"
  using assms
  by (simp add: weather_hourly_data_ok result_axis_def date_axis_def dict_get_def
      left_range_pos spec_axis_def axis_length_def)

text \<open>
  Claim C2, as stated, fails: with a span of two and a half intervals and arrays of length
  two, the axis has three instants, not the two of the specification.
\<close>

theorem axis_not_n_instants_counterexample:
  "valid_payload sample_uneven_weather 2 \<and> payload_invariant sample_uneven_weather 2 \<and>
   result_axis (weather_hourly_data sample_uneven_weather) =
     Some [1700000000, 1700003600, 1700007200] \<and>
   result_axis (weather_hourly_data sample_uneven_weather) \<noteq> Some (spec_axis sample_uneven_weather 2)"
  by code_simp

text \<open>
  Claim C2, amended. For a positive interval and an end after the start, the axis is exactly
  \<open>Time + k * Interval\<close> for \<open>k = 0, ..., m - 1\<close>, where \<open>m\<close> is the span divided by
  the interval rounded up: its first element is \<open>Time\<close>, it increases strictly in steps of
  \<open>Interval\<close>, all its instants lie before \<open>TimeEnd\<close>, so it never contains \<open>TimeEnd\<close>,
  also when \<open>TimeEnd\<close> is on the grid. When \<open>n\<close> is the span divided by the interval
  rounded down, \<open>m\<close> is \<open>n\<close> if the interval divides the span and \<open>n + 1\<close> otherwise.
\<close>

theorem axis_is_half_open_range:
  assumes "0 < Interval h" and "Time h < TimeEnd h"
  shows "(7 \<le> length (variables h) \<longrightarrow>
            result_axis (air_pollution_hourly_data h) = Some (spec_axis h (axis_length h)))
       \<and> (4 \<le> length (variables h) \<longrightarrow>
            result_axis (weather_hourly_data h) = Some (spec_axis h (axis_length h)))
       \<and> 0 < axis_length h
       \<and> hd (spec_axis h (axis_length h)) = Time h
       \<and> sorted_wrt (<) (spec_axis h (axis_length h))
       \<and> (\<forall>j. Suc j < axis_length h \<longrightarrow>
            spec_axis h (axis_length h) ! Suc j - spec_axis h (axis_length h) ! j = Interval h)
       \<and> (\<forall>t \<in> set (spec_axis h (axis_length h)). Time h \<le> t \<and> t < TimeEnd h)
       \<and> TimeEnd h \<notin> set (spec_axis h (axis_length h))
       \<and> (payload_invariant h n \<longrightarrow>
            axis_length h = (if Interval h dvd TimeEnd h - Time h then n else Suc n))"
proof -
  note pos = axis_length_pos [OF assms]
  from assms(2) have ne: "Time h \<noteq> TimeEnd h" by simp
  have inside: "\<forall>t \<in> set (spec_axis h (axis_length h)). Time h \<le> t \<and> t < TimeEnd h"
    using below_axis_length [OF assms(1)] assms(1) by (auto simp: spec_axis_def)
  have first: "hd (spec_axis h (axis_length h)) = Time h"
    using pos by (simp add: spec_axis_def hd_map upt_conv_Cons)
  have step: "\<forall>j. Suc j < axis_length h \<longrightarrow>
            spec_axis h (axis_length h) ! Suc j - spec_axis h (axis_length h) ! j = Interval h"
    by (simp add: spec_axis_def algebra_simps)
  have sorted: "sorted_wrt (<) (spec_axis h (axis_length h))"
    by (rule spec_axis_sorted [OF assms(1)])
  have no_end: "TimeEnd h \<notin> set (spec_axis h (axis_length h))"
    using inside by auto
  show ?thesis
    using result_axis_air [OF _ assms(1) ne] result_axis_weather [OF _ assms(1) ne] pos first sorted
      step inside no_end axis_length_cases [OF assms]
    by blast
qed

theorem axis_is_half_open_range_witness:
  "0 < Interval sample_air \<and> Time sample_air < TimeEnd sample_air \<and>
   result_axis (air_pollution_hourly_data sample_air) = Some (spec_axis sample_air 3) \<and>
   TimeEnd sample_air \<notin> set (spec_axis sample_air 3) \<and>
   payload_invariant sample_air 3 \<and>
   0 < Interval sample_uneven_weather \<and> Time sample_uneven_weather < TimeEnd sample_uneven_weather \<and>
   result_axis (weather_hourly_data sample_uneven_weather) = Some (spec_axis sample_uneven_weather 3) \<and>
   payload_invariant sample_uneven_weather 2"
proof -
  have a: "0 < Interval sample_air" "Time sample_air < TimeEnd sample_air"
    by (simp_all add: sample_air_def)
  have b: "0 < Interval sample_uneven_weather" "Time sample_uneven_weather < TimeEnd sample_uneven_weather"
    by (simp_all add: sample_uneven_weather_def)
  have va: "7 \<le> length (variables sample_air)" by (simp add: sample_air_def)
  have vb: "4 \<le> length (variables sample_uneven_weather)" by (simp add: sample_uneven_weather_def)
  have ia: "payload_invariant sample_air 3" by code_simp
  have ib: "payload_invariant sample_uneven_weather 2" by code_simp
  have da: "Interval sample_air dvd TimeEnd sample_air - Time sample_air"
    by (simp add: sample_air_def)
  have db: "\<not> Interval sample_uneven_weather dvd TimeEnd sample_uneven_weather - Time sample_uneven_weather"
    by (simp add: sample_uneven_weather_def)
  have la: "axis_length sample_air = 3"
    using axis_is_half_open_range [OF a, of 3] ia da by simp
  have lb: "axis_length sample_uneven_weather = 3"
    using axis_is_half_open_range [OF b, of 2] ib db by simp
  show ?thesis
    using axis_is_half_open_range [OF a, of 3] axis_is_half_open_range [OF b, of 2]
      a b va vb ia ib
    by (simp add: la lb)
qed

subsection \<open>Length of the axis\<close>

lemma valid_payload_length:
  assumes "valid_payload h n" and "i < length (variables h)"
  shows "length (ValuesAsNumpy (variables h ! i)) = n"
  using assms by (simp add: valid_payload_def list_all_length)

text \<open>
  Claim C3, as stated, fails: from 0 to 10 seconds in steps of 3, with arrays of length
  3 (10 divided by 3, rounded down), the axis has the four instants 0, 3, 6 and 9.
\<close>

theorem axis_length_not_floor_counterexample:
  "valid_payload sample_uneven_air 3 \<and> payload_invariant sample_uneven_air 3 \<and>
   map_option length (result_axis (air_pollution_hourly_data sample_uneven_air)) = Some 4 \<and>
   map_option length (result_axis (air_pollution_hourly_data sample_uneven_air)) \<noteq> Some 3"
  by code_simp

text \<open>
  Claim C3, amended. For a valid payload the length of the axis is the span divided by the
  interval rounded up; it comes from \<open>Time\<close>, \<open>TimeEnd\<close> and \<open>Interval\<close> alone. Every
  value column of the result has the common length \<open>n\<close> of the arrays. Under the invariant
  that \<open>n\<close> is the span divided by the interval rounded down, the axis has length \<open>n\<close>
  when the interval divides the span, and \<open>n + 1\<close> otherwise.
\<close>

theorem axis_length_rounds_up:
  assumes "valid_payload h n"
  shows "(7 \<le> length (variables h) \<longrightarrow>
            map_option length (result_axis (air_pollution_hourly_data h)) = Some (axis_length h) \<and>
            (\<exists>d. air_pollution_hourly_data h = Inr d \<and>
               (\<forall>i < 7. \<exists>vs. dict_get d (hourly (air_quality_params lat lon start stop) ! i) =
                              Some (Ndarray vs) \<and> length vs = n)))
       \<and> (4 \<le> length (variables h) \<longrightarrow>
            map_option length (result_axis (weather_hourly_data h)) = Some (axis_length h) \<and>
            (\<exists>d. weather_hourly_data h = Inr d \<and>
               (\<forall>i < 4. \<exists>vs. dict_get d (hourly (weather_params lat lon start stop) ! i) =
                              Some (Ndarray vs) \<and> length vs = n)))
       \<and> int (axis_length h) = (TimeEnd h - Time h + Interval h - 1) div Interval h
       \<and> (payload_invariant h n \<and> Interval h dvd TimeEnd h - Time h \<longrightarrow> axis_length h = n)
       \<and> (payload_invariant h n \<and> \<not> Interval h dvd TimeEnd h - Time h \<longrightarrow> axis_length h = Suc n)"
proof -
  have pos: "0 < Interval h" and range: "Time h < TimeEnd h"
    using assms by (simp_all add: valid_payload_def)
  from range have ne: "Time h \<noteq> TimeEnd h" by simp
  have air: "map_option length (result_axis (air_pollution_hourly_data h)) = Some (axis_length h) \<and>
            (\<exists>d. air_pollution_hourly_data h = Inr d \<and>
               (\<forall>i < 7. \<exists>vs. dict_get d (hourly (air_quality_params lat lon start stop) ! i) =
                              Some (Ndarray vs) \<and> length vs = n))"
    if v: "7 \<le> length (variables h)"
  proof -
    from pos have nz: "Interval h \<noteq> 0" by simp
    obtain d where d: "air_pollution_hourly_data h = Inr d"
      using air_pollution_hourly_data_ok [OF v nz] by simp
    have "\<exists>vs. dict_get d (hourly (air_quality_params lat lon start stop) ! i) =
                              Some (Ndarray vs) \<and> length vs = n" if "i < 7" for i
      using air_columns(2) [OF d, of i lat lon start stop] that v
        valid_payload_length [OF assms, of i]
      by (simp add: air_quality_params_def)
    then show ?thesis
      using d result_axis_air [OF v pos ne] by (simp add: spec_axis_def)
  qed
  have weather: "map_option length (result_axis (weather_hourly_data h)) = Some (axis_length h) \<and>
            (\<exists>d. weather_hourly_data h = Inr d \<and>
               (\<forall>i < 4. \<exists>vs. dict_get d (hourly (weather_params lat lon start stop) ! i) =
                              Some (Ndarray vs) \<and> length vs = n))"
    if v: "4 \<le> length (variables h)"
  proof -
    from pos have nz: "Interval h \<noteq> 0" by simp
    obtain d where d: "weather_hourly_data h = Inr d"
      using weather_hourly_data_ok [OF v nz] by simp
    have "\<exists>vs. dict_get d (hourly (weather_params lat lon start stop) ! i) =
                              Some (Ndarray vs) \<and> length vs = n" if "i < 4" for i
      using weather_columns(2) [OF d, of i lat lon start stop] that v
        valid_payload_length [OF assms, of i]
      by (simp add: weather_params_def)
    then show ?thesis
      using d result_axis_weather [OF v pos ne] by (simp add: spec_axis_def)
  qed
  have "0 < axis_length h" by (rule axis_length_pos [OF pos range])
  then have ceil: "int (axis_length h) = (TimeEnd h - Time h + Interval h - 1) div Interval h"
    by (simp add: axis_length_def)
  show ?thesis
    using air weather ceil axis_length_cases [OF pos range, of n] by simp
qed

theorem axis_length_rounds_up_witness:
  "valid_payload sample_air 3 \<and> payload_invariant sample_air 3 \<and>
   map_option length (result_axis (air_pollution_hourly_data sample_air)) = Some 3 \<and>
   valid_payload sample_uneven_weather 2 \<and> payload_invariant sample_uneven_weather 2 \<and>
   map_option length (result_axis (weather_hourly_data sample_uneven_weather)) = Some 3"
proof -
  have a: "valid_payload sample_air 3" by code_simp
  have b: "valid_payload sample_uneven_weather 2" by code_simp
  have va: "7 \<le> length (variables sample_air)" by (simp add: sample_air_def)
  have vb: "4 \<le> length (variables sample_uneven_weather)" by (simp add: sample_uneven_weather_def)
  have ia: "payload_invariant sample_air 3" by code_simp
  have ib: "payload_invariant sample_uneven_weather 2" by code_simp
  have da: "Interval sample_air dvd TimeEnd sample_air - Time sample_air"
    by (simp add: sample_air_def)
  have db: "\<not> Interval sample_uneven_weather dvd TimeEnd sample_uneven_weather - Time sample_uneven_weather"
    by (simp add: sample_uneven_weather_def)
  have la: "axis_length sample_air = 3"
    using axis_length_rounds_up [OF a, of 0 0 "''''" "''''"] ia da by blast
  have lb: "axis_length sample_uneven_weather = Suc 2"
    using axis_length_rounds_up [OF b, of 0 0 "''''" "''''"] ib db by blast
  note ra = axis_length_rounds_up [OF a, of 0 0 "''''" "''''", THEN conjunct1, rule_format, OF va,
      THEN conjunct1]
  note rb = axis_length_rounds_up [OF b, of 0 0 "''''" "''''", THEN conjunct2, THEN conjunct1,
      rule_format, OF vb, THEN conjunct1]
  show ?thesis
    using ra rb a b ia ib by (simp add: la lb)
qed

subsection \<open>Values at a timestamp\<close>

lemma invariant_below_axis_length:
  assumes "0 < Interval h" and "Time h < TimeEnd h" and "payload_invariant h n"
  shows "n \<le> axis_length h"
  using axis_length_cases [OF assms] by (simp split: if_splits)

lemma assembled_value_row:
  assumes "date_axis d = Some axis" and "distinct axis" and "k < length axis"
    and "column_value d name k = Some x"
  shows "assembled_value d (axis ! k) name = Some x"
  using assms index_of_nth [OF assms(2,3)]
  by (auto simp: assembled_value_def date_axis_def split: option.splits column.splits)

lemma date_axis_air:
  assumes "air_pollution_hourly_data h = Inr d" and "0 < Interval h" and "Time h \<noteq> TimeEnd h"
  shows "date_axis d = Some (spec_axis h (axis_length h))"
proof -
  have "7 \<le> length (variables h)" using air_pollution_hourly_data_Inr [OF assms(1)] by simp
  from result_axis_air [OF this assms(2,3)] show ?thesis by (simp add: assms(1) result_axis_def)
qed

lemma date_axis_weather:
  assumes "weather_hourly_data h = Inr d" and "0 < Interval h" and "Time h \<noteq> TimeEnd h"
  shows "date_axis d = Some (spec_axis h (axis_length h))"
proof -
  have "4 \<le> length (variables h)" using weather_hourly_data_Inr [OF assms(1)] by simp
  from result_axis_weather [OF this assms(2,3)] show ?thesis by (simp add: assms(1) result_axis_def)
qed

text \<open>
  Claim C1, as stated, fails: a span of one hour sampled hourly with arrays of length 3 is a
  valid payload, but the axis has the single instant 1700000000, so there is no timestamp
  for the values at positions 1 and 2; nothing is keyed by 1700003600, where the claim
  puts the value 2 of the first array.
\<close>

theorem no_timestamp_for_value_counterexample:
  "valid_payload sample_short_span 3 \<and>
   result_axis (air_pollution_hourly_data sample_short_span) = Some [1700000000] \<and>
   ValuesAsNumpy (variables sample_short_span ! 0) ! 1 = 2 \<and>
   result_value (air_pollution_hourly_data sample_short_span)
     (Time sample_short_span + 1 * Interval sample_short_span) ''pm10'' = None"
  by code_simp

text \<open>
  Claim C1, amended. For a valid payload with arrays of length \<open>n\<close>, every \<open>k < n\<close> and
  every requested position \<open>i\<close>: the call returns a dictionary; the column under the
  \<open>i\<close>-th requested name is the \<open>i\<close>-th array of the response, unchanged, so its
  \<open>k\<close>-th entry is the \<open>k\<close>-th value of that array; whenever the axis has a \<open>k\<close>-th
  instant, that instant is \<open>Time + k * Interval\<close> and the value keyed by it and by the
  name is that same value; and the axis has a \<open>k\<close>-th instant for every \<open>k < n\<close> under
  the invariant of the data model (\<open>n\<close> is the span divided by the interval, rounded down).
\<close>

theorem values_round_trip:
  assumes "valid_payload h n" and "k < n"
  shows "(7 \<le> length (variables h) \<and> i < 7 \<longrightarrow>
           (\<exists>d axis. air_pollution_hourly_data h = Inr d \<and>
              dict_get d (hourly (air_quality_params lat lon start stop) ! i) =
                Some (Ndarray (ValuesAsNumpy (variables h ! i))) \<and>
              column_value d (hourly (air_quality_params lat lon start stop) ! i) k =
                Some (ValuesAsNumpy (variables h ! i) ! k) \<and>
              date_axis d = Some axis \<and>
              (payload_invariant h n \<longrightarrow> k < length axis) \<and>
              (k < length axis \<longrightarrow>
                 axis ! k = Time h + int k * Interval h \<and>
                 assembled_value d (axis ! k) (hourly (air_quality_params lat lon start stop) ! i) =
                   Some (ValuesAsNumpy (variables h ! i) ! k))))
       \<and> (4 \<le> length (variables h) \<and> i < 4 \<longrightarrow>
           (\<exists>d axis. weather_hourly_data h = Inr d \<and>
              dict_get d (hourly (weather_params lat lon start stop) ! i) =
                Some (Ndarray (ValuesAsNumpy (variables h ! i))) \<and>
              column_value d (hourly (weather_params lat lon start stop) ! i) k =
                Some (ValuesAsNumpy (variables h ! i) ! k) \<and>
              date_axis d = Some axis \<and>
              (payload_invariant h n \<longrightarrow> k < length axis) \<and>
              (k < length axis \<longrightarrow>
                 axis ! k = Time h + int k * Interval h \<and>
                 assembled_value d (axis ! k) (hourly (weather_params lat lon start stop) ! i) =
                   Some (ValuesAsNumpy (variables h ! i) ! k))))"
proof -
  have pos: "0 < Interval h" and range: "Time h < TimeEnd h"
    using assms(1) by (simp_all add: valid_payload_def)
  then have nz: "Interval h \<noteq> 0" by simp
  from range have ne: "Time h \<noteq> TimeEnd h" by simp
  have inv: "k < length (spec_axis h (axis_length h))" if "payload_invariant h n"
    using invariant_below_axis_length [OF pos range that] assms(2)
    by (simp add: spec_axis_def)
  have at_k: "spec_axis h (axis_length h) ! k = Time h + int k * Interval h"
    if "k < length (spec_axis h (axis_length h))"
    using that by (simp add: spec_axis_def)
  note dist = spec_axis_distinct [OF pos]
  have air: "\<exists>d axis. air_pollution_hourly_data h = Inr d \<and>
              dict_get d (hourly (air_quality_params lat lon start stop) ! i) =
                Some (Ndarray (ValuesAsNumpy (variables h ! i))) \<and>
              column_value d (hourly (air_quality_params lat lon start stop) ! i) k =
                Some (ValuesAsNumpy (variables h ! i) ! k) \<and>
              date_axis d = Some axis \<and>
              (payload_invariant h n \<longrightarrow> k < length axis) \<and>
              (k < length axis \<longrightarrow>
                 axis ! k = Time h + int k * Interval h \<and>
                 assembled_value d (axis ! k) (hourly (air_quality_params lat lon start stop) ! i) =
                   Some (ValuesAsNumpy (variables h ! i) ! k))"
    if v: "7 \<le> length (variables h)" and i: "i < 7"
  proof -
    obtain d where d: "air_pollution_hourly_data h = Inr d"
      using air_pollution_hourly_data_ok [OF v nz] by simp
    have i': "i < length (hourly (air_quality_params lat lon start stop))"
      using i by (simp add: air_quality_params_def)
    note col = air_columns(2) [OF d i']
    have len: "k < length (ValuesAsNumpy (variables h ! i))"
      using valid_payload_length [OF assms(1), of i] v i assms(2) by simp
    have cell: "column_value d (hourly (air_quality_params lat lon start stop) ! i) k =
        Some (ValuesAsNumpy (variables h ! i) ! k)"
      using col len by (simp add: column_value_def)
    note ax = date_axis_air [OF d pos ne]
    have row: "assembled_value d (spec_axis h (axis_length h) ! k)
          (hourly (air_quality_params lat lon start stop) ! i) = Some (ValuesAsNumpy (variables h ! i) ! k)"
      if "k < length (spec_axis h (axis_length h))"
      using assembled_value_row [OF ax dist that cell] .
    show ?thesis
      using d col cell ax inv at_k row by blast
  qed
  have weather: "\<exists>d axis. weather_hourly_data h = Inr d \<and>
              dict_get d (hourly (weather_params lat lon start stop) ! i) =
                Some (Ndarray (ValuesAsNumpy (variables h ! i))) \<and>
              column_value d (hourly (weather_params lat lon start stop) ! i) k =
                Some (ValuesAsNumpy (variables h ! i) ! k) \<and>
              date_axis d = Some axis \<and>
              (payload_invariant h n \<longrightarrow> k < length axis) \<and>
              (k < length axis \<longrightarrow>
                 axis ! k = Time h + int k * Interval h \<and>
                 assembled_value d (axis ! k) (hourly (weather_params lat lon start stop) ! i) =
                   Some (ValuesAsNumpy (variables h ! i) ! k))"
    if v: "4 \<le> length (variables h)" and i: "i < 4"
  proof -
    obtain d where d: "weather_hourly_data h = Inr d"
      using weather_hourly_data_ok [OF v nz] by simp
    have i': "i < length (hourly (weather_params lat lon start stop))"
      using i by (simp add: weather_params_def)
    note col = weather_columns(2) [OF d i']
    have len: "k < length (ValuesAsNumpy (variables h ! i))"
      using valid_payload_length [OF assms(1), of i] v i assms(2) by simp
    have cell: "column_value d (hourly (weather_params lat lon start stop) ! i) k =
        Some (ValuesAsNumpy (variables h ! i) ! k)"
      using col len by (simp add: column_value_def)
    note ax = date_axis_weather [OF d pos ne]
    have row: "assembled_value d (spec_axis h (axis_length h) ! k)
          (hourly (weather_params lat lon start stop) ! i) = Some (ValuesAsNumpy (variables h ! i) ! k)"
      if "k < length (spec_axis h (axis_length h))"
      using assembled_value_row [OF ax dist that cell] .
    show ?thesis
      using d col cell ax inv at_k row by blast
  qed
  show ?thesis using air weather by blast
qed

lemma sample_air_valid: "valid_payload sample_air 3 \<and> payload_invariant sample_air 3"
  by code_simp

lemma sample_weather_valid: "valid_payload sample_weather 3 \<and> payload_invariant sample_weather 3"
  by code_simp

theorem values_round_trip_witness:
  "valid_payload sample_air 3 \<and> payload_invariant sample_air 3 \<and>
   air_pollution_hourly_data sample_air = Inr sample_air_dict \<and>
   column_value sample_air_dict ''sulphur_dioxide'' 1 = Some 22 \<and>
   assembled_value sample_air_dict 1700003600 ''sulphur_dioxide'' = Some 22 \<and>
   valid_payload sample_weather 3 \<and> payload_invariant sample_weather 3 \<and>
   weather_hourly_data sample_weather = Inr sample_weather_dict \<and>
   column_value sample_weather_dict ''dew_point_2m'' 2 = Some 33 \<and>
   assembled_value sample_weather_dict 1700007200 ''dew_point_2m'' = Some 33"
proof -
  have va: "7 \<le> length (variables sample_air) \<and> (2::nat) < 7" by (simp add: sample_air_def)
  have vw: "4 \<le> length (variables sample_weather) \<and> (3::nat) < 4" by (simp add: sample_weather_def)
  have one: "(1::nat) < 3" and two: "(2::nat) < 3" by simp_all
  note ia = sample_air_valid [THEN conjunct2]
  note iw = sample_weather_valid [THEN conjunct2]
  note a = values_round_trip [OF sample_air_valid [THEN conjunct1] one,
      THEN conjunct1, rule_format, OF va, of "0::nat" 0 "[]" "[]"]
  note w = values_round_trip [OF sample_weather_valid [THEN conjunct1] two,
      THEN conjunct2, rule_format, OF vw, of "0::nat" 0 "[]" "[]"]
  have na: "hourly (air_quality_params (0::nat) 0 [] []) ! 2 = ''sulphur_dioxide''"
    by (simp add: air_quality_params_def)
  have nw: "hourly (weather_params (0::nat) 0 [] []) ! 3 = ''dew_point_2m''"
    by (simp add: weather_params_def)
  from a obtain d axis where d: "air_pollution_hourly_data sample_air = Inr d"
    and cell: "column_value d (hourly (air_quality_params (0::nat) 0 [] []) ! 2) 1 =
           Some (ValuesAsNumpy (variables sample_air ! 2) ! 1)"
    and inv: "payload_invariant sample_air 3 \<longrightarrow> 1 < length axis"
    and row: "1 < length axis \<longrightarrow>
         axis ! 1 = Time sample_air + int 1 * Interval sample_air \<and>
         assembled_value d (axis ! 1) (hourly (air_quality_params (0::nat) 0 [] []) ! 2) =
           Some (ValuesAsNumpy (variables sample_air ! 2) ! 1)"
    by (elim exE conjE) blast
  from inv ia have "1 < length axis" by (rule mp)
  with row have ax: "axis ! 1 = Time sample_air + int 1 * Interval sample_air"
    and val: "assembled_value d (axis ! 1) (hourly (air_quality_params (0::nat) 0 [] []) ! 2) =
           Some (ValuesAsNumpy (variables sample_air ! 2) ! 1)"
    by blast+
  from d have "d = sample_air_dict" by (simp add: sample_air_result)
  with cell ax val have "column_value sample_air_dict ''sulphur_dioxide'' 1 = Some 22 \<and>
      assembled_value sample_air_dict 1700003600 ''sulphur_dioxide'' = Some 22"
    by (simp add: na sample_air_def)
  moreover from w obtain d' axis' where d': "weather_hourly_data sample_weather = Inr d'"
    and cell': "column_value d' (hourly (weather_params (0::nat) 0 [] []) ! 3) 2 =
           Some (ValuesAsNumpy (variables sample_weather ! 3) ! 2)"
    and inv': "payload_invariant sample_weather 3 \<longrightarrow> 2 < length axis'"
    and row': "2 < length axis' \<longrightarrow>
         axis' ! 2 = Time sample_weather + int 2 * Interval sample_weather \<and>
         assembled_value d' (axis' ! 2) (hourly (weather_params (0::nat) 0 [] []) ! 3) =
           Some (ValuesAsNumpy (variables sample_weather ! 3) ! 2)"
    by (elim exE conjE) blast
  from inv' iw have "2 < length axis'" by (rule mp)
  with row' have ax': "axis' ! 2 = Time sample_weather + int 2 * Interval sample_weather"
    and val': "assembled_value d' (axis' ! 2) (hourly (weather_params (0::nat) 0 [] []) ! 3) =
           Some (ValuesAsNumpy (variables sample_weather ! 3) ! 2)"
    by blast+
  from d' have "d' = sample_weather_dict" by (simp add: sample_weather_result)
  with cell' ax' val' have "column_value sample_weather_dict ''dew_point_2m'' 2 = Some 33 \<and>
      assembled_value sample_weather_dict 1700007200 ''dew_point_2m'' = Some 33"
    by (simp add: nw sample_weather_def)
  ultimately show ?thesis
    using sample_air_valid sample_weather_valid sample_air_result sample_weather_result by simp
qed

subsection \<open>An interval that is not positive\<close>

lemma air_zero_interval: "Interval h = 0 \<Longrightarrow> \<exists>e. air_pollution_hourly_data h = Inl e"
  by (cases "air_pollution_hourly_data h") (auto dest: air_pollution_hourly_data_Inr)

lemma weather_zero_interval: "Interval h = 0 \<Longrightarrow> \<exists>e. weather_hourly_data h = Inl e"
  by (cases "weather_hourly_data h") (auto dest: weather_hourly_data_Inr)

lemma air_zero_frequency:
  assumes "Interval h = 0" and "7 \<le> length (variables h)"
  shows "air_pollution_hourly_data h = Inl ZeroFrequency"
proof -
  have "variables h \<noteq> []" using assms(2) by auto
  then show ?thesis using assms
    by (simp add: air_pollution_hourly_data_def Variables_def bind_result_def date_range_def
        to_datetime_def Timedelta_def)
qed

lemma weather_zero_frequency:
  assumes "Interval h = 0" and "4 \<le> length (variables h)"
  shows "weather_hourly_data h = Inl ZeroFrequency"
proof -
  have "variables h \<noteq> []" using assms(2) by auto
  then show ?thesis using assms
    by (simp add: weather_hourly_data_def Variables_def bind_result_def date_range_def
        to_datetime_def Timedelta_def)
qed

lemma left_range_neg:
  assumes "freq < 0" and "start < stop"
  shows "trim_ends Incl_left start stop (regular_range start stop freq) = []"
proof -
  from assms have "(stop - start) div freq < 0"
    by (simp add: neg_imp_zdiv_neg_iff)
  moreover from assms(2) have "start \<noteq> stop" by simp
  ultimately show ?thesis by (simp add: regular_range_def trim_ends_left)
qed

text \<open>
  Claim C4, as stated, fails: with an interval of -3600 seconds the call returns a
  dictionary, with an empty axis and the seven arrays.
\<close>

theorem negative_interval_returns_counterexample:
  "\<not> 0 < Interval sample_negative_interval \<and>
   air_pollution_hourly_data sample_negative_interval = Inr
     [(''date'', DatetimeIndex \<lparr>stamps = [], tz = Some ''UTC''\<rparr>),
      (''pm10'', Ndarray [1, 2, 3]), (''pm2_5'', Ndarray [11, 12, 13]),
      (''sulphur_dioxide'', Ndarray [21, 22, 23]), (''nitrogen_dioxide'', Ndarray [31, 32, 33]),
      (''ozone'', Ndarray [41, 42, 43]), (''carbon_monoxide'', Ndarray [51, 52, 53]),
      (''european_aqi'', Ndarray [61, 62, 63])]"
  by code_simp

text \<open>
  Claim C4, amended. A payload whose interval is 0 produces no output: the call fails, and
  when the requested variables are present the failure is the one of the date range on a
  zero frequency (the module has no error of its own for the interval). A payload whose
  interval is negative is not rejected: when the requested variables are present and the
  end is after the start, the call returns a dictionary whose axis is empty.
\<close>

theorem interval_not_positive:
  "(Interval h = 0 \<longrightarrow>
      (\<exists>e. air_pollution_hourly_data h = Inl e) \<and> (\<exists>e. weather_hourly_data h = Inl e) \<and>
      (7 \<le> length (variables h) \<longrightarrow> air_pollution_hourly_data h = Inl ZeroFrequency) \<and>
      (4 \<le> length (variables h) \<longrightarrow> weather_hourly_data h = Inl ZeroFrequency))
   \<and> (Interval h < 0 \<and> Time h < TimeEnd h \<longrightarrow>
      (7 \<le> length (variables h) \<longrightarrow> result_axis (air_pollution_hourly_data h) = Some []) \<and>
      (4 \<le> length (variables h) \<longrightarrow> result_axis (weather_hourly_data h) = Some []))"
proof (intro conjI impI)
  assume "Interval h = 0"
  then show "\<exists>e. air_pollution_hourly_data h = Inl e" "\<exists>e. weather_hourly_data h = Inl e"
    by (rule air_zero_interval, rule weather_zero_interval)
next
  assume "Interval h = 0" "7 \<le> length (variables h)"
  then show "air_pollution_hourly_data h = Inl ZeroFrequency" by (rule air_zero_frequency)
next
  assume "Interval h = 0" "4 \<le> length (variables h)"
  then show "weather_hourly_data h = Inl ZeroFrequency" by (rule weather_zero_frequency)
next
  assume neg: "Interval h < 0 \<and> Time h < TimeEnd h" and v: "7 \<le> length (variables h)"
  then have "Interval h \<noteq> 0" by simp
  from air_pollution_hourly_data_ok [OF v this] neg
  show "result_axis (air_pollution_hourly_data h) = Some []"
    by (simp add: result_axis_def date_axis_def dict_get_def left_range_neg)
next
  assume neg: "Interval h < 0 \<and> Time h < TimeEnd h" and v: "4 \<le> length (variables h)"
  then have "Interval h \<noteq> 0" by simp
  from weather_hourly_data_ok [OF v this] neg
  show "result_axis (weather_hourly_data h) = Some []"
    by (simp add: result_axis_def date_axis_def dict_get_def left_range_neg)
qed

theorem interval_not_positive_witness:
  "Interval (sample_air\<lparr>Interval := 0\<rparr>) = 0 \<and>
   air_pollution_hourly_data (sample_air\<lparr>Interval := 0\<rparr>) = Inl ZeroFrequency \<and>
   weather_hourly_data (sample_weather\<lparr>Interval := 0\<rparr>) = Inl ZeroFrequency \<and>
   Interval sample_negative_interval < 0 \<and>
   Time sample_negative_interval < TimeEnd sample_negative_interval \<and>
   result_axis (air_pollution_hourly_data sample_negative_interval) = Some [] \<and>
   result_axis (weather_hourly_data sample_negative_interval) = Some []"
  using interval_not_positive [of "sample_air\<lparr>Interval := 0\<rparr>"]
    interval_not_positive [of "sample_weather\<lparr>Interval := 0\<rparr>"]
    interval_not_positive [of sample_negative_interval]
  by (simp add: sample_air_def sample_weather_def sample_negative_interval_def)

subsection \<open>Arrays of different lengths\<close>

text \<open>
  Claim C5, as stated, fails: with a first array of length 5 and a second of length 4 the
  call returns a dictionary that holds both arrays.
\<close>

theorem unequal_lengths_returned_counterexample:
  "length (ValuesAsNumpy (variables sample_unequal_lengths ! 0)) = 5 \<and>
   length (ValuesAsNumpy (variables sample_unequal_lengths ! 1)) = 4 \<and>
   air_pollution_hourly_data sample_unequal_lengths = Inr
     [(''date'', DatetimeIndex \<lparr>stamps = [1700000000, 1700003600, 1700007200, 1700010800,
                                            1700014400], tz = Some ''UTC''\<rparr>),
      (''pm10'', Ndarray [1, 2, 3, 4, 5]), (''pm2_5'', Ndarray [11, 12, 13, 14]),
      (''sulphur_dioxide'', Ndarray [21, 22, 23, 24, 25]),
      (''nitrogen_dioxide'', Ndarray [31, 32, 33, 34, 35]),
      (''ozone'', Ndarray [41, 42, 43, 44, 45]), (''carbon_monoxide'', Ndarray [51, 52, 53, 54, 55]),
      (''european_aqi'', Ndarray [61, 62, 63, 64, 65])]"
  by code_simp

text \<open>
  Claim C5, amended. The lengths of the value arrays are never compared. For every payload
  with a nonzero interval in which the requested variables are present, whatever the lengths
  of their arrays, the call returns a dictionary, and under each requested name it holds the
  array of that position with the length it came with.
\<close>

theorem lengths_are_not_compared:
  assumes "Interval h \<noteq> 0"
  shows "(7 \<le> length (variables h) \<longrightarrow>
           (\<exists>d. air_pollution_hourly_data h = Inr d \<and>
              (\<forall>i < 7. \<exists>vs. dict_get d (hourly (air_quality_params lat lon start stop) ! i) =
                             Some (Ndarray vs) \<and>
                           vs = ValuesAsNumpy (variables h ! i) \<and>
                           length vs = length (ValuesAsNumpy (variables h ! i)))))
       \<and> (4 \<le> length (variables h) \<longrightarrow>
           (\<exists>d. weather_hourly_data h = Inr d \<and>
              (\<forall>i < 4. \<exists>vs. dict_get d (hourly (weather_params lat lon start stop) ! i) =
                             Some (Ndarray vs) \<and>
                           vs = ValuesAsNumpy (variables h ! i) \<and>
                           length vs = length (ValuesAsNumpy (variables h ! i)))))"
proof (intro conjI impI)
  assume v: "7 \<le> length (variables h)"
  obtain d where d: "air_pollution_hourly_data h = Inr d"
    using air_pollution_hourly_data_ok [OF v assms] by simp
  have "dict_get d (hourly (air_quality_params lat lon start stop) ! i) =
          Some (Ndarray (ValuesAsNumpy (variables h ! i)))" if "i < 7" for i
    using air_columns(2) [OF d, of i lat lon start stop] that by (simp add: air_quality_params_def)
  with d show "\<exists>d. air_pollution_hourly_data h = Inr d \<and>
              (\<forall>i < 7. \<exists>vs. dict_get d (hourly (air_quality_params lat lon start stop) ! i) =
                             Some (Ndarray vs) \<and>
                           vs = ValuesAsNumpy (variables h ! i) \<and>
                           length vs = length (ValuesAsNumpy (variables h ! i)))"
    by simp
next
  assume v: "4 \<le> length (variables h)"
  obtain d where d: "weather_hourly_data h = Inr d"
    using weather_hourly_data_ok [OF v assms] by simp
  have "dict_get d (hourly (weather_params lat lon start stop) ! i) =
          Some (Ndarray (ValuesAsNumpy (variables h ! i)))" if "i < 4" for i
    using weather_columns(2) [OF d, of i lat lon start stop] that by (simp add: weather_params_def)
  with d show "\<exists>d. weather_hourly_data h = Inr d \<and>
              (\<forall>i < 4. \<exists>vs. dict_get d (hourly (weather_params lat lon start stop) ! i) =
                             Some (Ndarray vs) \<and>
                           vs = ValuesAsNumpy (variables h ! i) \<and>
                           length vs = length (ValuesAsNumpy (variables h ! i)))"
    by simp
qed

theorem lengths_are_not_compared_witness:
  "Interval sample_unequal_lengths \<noteq> 0 \<and>
   (\<exists>d. air_pollution_hourly_data sample_unequal_lengths = Inr d \<and>
      dict_get d ''pm10'' = Some (Ndarray [1, 2, 3, 4, 5]) \<and>
      dict_get d ''pm2_5'' = Some (Ndarray [11, 12, 13, 14]))
   \<and> (\<exists>d. weather_hourly_data sample_unequal_lengths = Inr d \<and>
      dict_get d ''temperature_2m'' = Some (Ndarray [1, 2, 3, 4, 5]) \<and>
      dict_get d ''relative_humidity_2m'' = Some (Ndarray [11, 12, 13, 14]))"
proof -
  have nz: "Interval sample_unequal_lengths \<noteq> 0" by (simp add: sample_unequal_lengths_def)
  have v: "7 \<le> length (variables sample_unequal_lengths)" "4 \<le> length (variables sample_unequal_lengths)"
    by (simp_all add: sample_unequal_lengths_def)
  note t = lengths_are_not_compared [OF nz, of 0 0 "[]" "[]"]
  from t [THEN conjunct1, rule_format, OF v(1)] obtain d where
    d: "air_pollution_hourly_data sample_unequal_lengths = Inr d"
    and c: "\<forall>i < 7. \<exists>vs. dict_get d (hourly (air_quality_params 0 0 [] []) ! i) = Some (Ndarray vs) \<and>
              vs = ValuesAsNumpy (variables sample_unequal_lengths ! i) \<and>
              length vs = length (ValuesAsNumpy (variables sample_unequal_lengths ! i))"
    by blast
  from t [THEN conjunct2, rule_format, OF v(2)] obtain d' where
    d': "weather_hourly_data sample_unequal_lengths = Inr d'"
    and c': "\<forall>i < 4. \<exists>vs. dict_get d' (hourly (weather_params 0 0 [] []) ! i) = Some (Ndarray vs) \<and>
              vs = ValuesAsNumpy (variables sample_unequal_lengths ! i) \<and>
              length vs = length (ValuesAsNumpy (variables sample_unequal_lengths ! i))"
    by blast
  have "dict_get d ''pm10'' = Some (Ndarray [1, 2, 3, 4, 5])"
    "dict_get d ''pm2_5'' = Some (Ndarray [11, 12, 13, 14])"
    using c [rule_format, of 0] c [rule_format, of 1]
    by (simp_all add: air_quality_params_def sample_unequal_lengths_def)
  moreover have "dict_get d' ''temperature_2m'' = Some (Ndarray [1, 2, 3, 4, 5])"
    "dict_get d' ''relative_humidity_2m'' = Some (Ndarray [11, 12, 13, 14])"
    using c' [rule_format, of 0] c' [rule_format, of 1]
    by (simp_all add: weather_params_def sample_unequal_lengths_def)
  ultimately show ?thesis using nz d d' by blast
qed

subsection \<open>An end that is not after the start\<close>

lemma axis_length_empty:
  assumes "0 < Interval h" and "TimeEnd h \<le> Time h"
  shows "axis_length h = 0"
proof -
  have "TimeEnd h - Time h + Interval h - 1 \<le> Interval h - 1" using assms(2) by simp
  then have "(TimeEnd h - Time h + Interval h - 1) div Interval h \<le> (Interval h - 1) div Interval h"
    using assms(1) by (rule zdiv_mono1)
  also have "(Interval h - 1) div Interval h = 0" using assms(1) by (simp add: div_pos_pos_trivial)
  finally show ?thesis by (simp add: axis_length_def)
qed

text \<open>
  Claim C6, as stated, fails: with an end one hour before the start the call returns a
  dictionary, with an empty axis.
\<close>

theorem reversed_range_returns_counterexample:
  "\<not> Time sample_reversed_range < TimeEnd sample_reversed_range \<and>
   air_pollution_hourly_data sample_reversed_range = Inr
     [(''date'', DatetimeIndex \<lparr>stamps = [], tz = Some ''UTC''\<rparr>),
      (''pm10'', Ndarray []), (''pm2_5'', Ndarray []), (''sulphur_dioxide'', Ndarray []),
      (''nitrogen_dioxide'', Ndarray []), (''ozone'', Ndarray []),
      (''carbon_monoxide'', Ndarray []), (''european_aqi'', Ndarray [])]"
  by code_simp

text \<open>
  Claim C6, amended. A payload whose end is not after its start is not rejected: with a
  positive interval and the requested variables present, the call returns a dictionary with
  the key \<open>date\<close> and the requested names; when the end is before the start, its
  timestamp axis is empty.
\<close>

theorem range_not_after_start:
  assumes "TimeEnd h \<le> Time h" and "0 < Interval h"
  shows "(7 \<le> length (variables h) \<longrightarrow>
           (\<exists>d. air_pollution_hourly_data h = Inr d \<and>
              dict_keys d = ''date'' # hourly (air_quality_params lat lon start stop) \<and>
              (TimeEnd h < Time h \<longrightarrow> date_axis d = Some [])))
       \<and> (4 \<le> length (variables h) \<longrightarrow>
           (\<exists>d. weather_hourly_data h = Inr d \<and>
              dict_keys d = ''date'' # hourly (weather_params lat lon start stop) \<and>
              (TimeEnd h < Time h \<longrightarrow> date_axis d = Some [])))"
proof (intro conjI impI)
  from assms(2) have nz: "Interval h \<noteq> 0" by simp
  have empty: "spec_axis h (axis_length h) = []"
    by (simp add: spec_axis_def axis_length_empty [OF assms(2,1)])
  {
    assume v: "7 \<le> length (variables h)"
    obtain d where d: "air_pollution_hourly_data h = Inr d"
      using air_pollution_hourly_data_ok [OF v nz] by simp
    have "date_axis d = Some []" if "TimeEnd h < Time h"
    proof -
      from that have "Time h \<noteq> TimeEnd h" by simp
      from date_axis_air [OF d assms(2) this] empty show ?thesis by simp
    qed
    with d air_keys(1) [OF d, of lat lon start stop]
    show "\<exists>d. air_pollution_hourly_data h = Inr d \<and>
              dict_keys d = ''date'' # hourly (air_quality_params lat lon start stop) \<and>
              (TimeEnd h < Time h \<longrightarrow> date_axis d = Some [])"
      by simp
  }
  {
    assume v: "4 \<le> length (variables h)"
    obtain d where d: "weather_hourly_data h = Inr d"
      using weather_hourly_data_ok [OF v nz] by simp
    have "date_axis d = Some []" if "TimeEnd h < Time h"
    proof -
      from that have "Time h \<noteq> TimeEnd h" by simp
      from date_axis_weather [OF d assms(2) this] empty show ?thesis by simp
    qed
    with d weather_keys(1) [OF d, of lat lon start stop]
    show "\<exists>d. weather_hourly_data h = Inr d \<and>
              dict_keys d = ''date'' # hourly (weather_params lat lon start stop) \<and>
              (TimeEnd h < Time h \<longrightarrow> date_axis d = Some [])"
      by simp
  }
qed

theorem range_not_after_start_witness:
  "TimeEnd sample_reversed_range \<le> Time sample_reversed_range \<and>
   TimeEnd sample_reversed_range < Time sample_reversed_range \<and>
   0 < Interval sample_reversed_range \<and>
   (\<exists>d. air_pollution_hourly_data sample_reversed_range = Inr d \<and> date_axis d = Some []) \<and>
   (\<exists>d. weather_hourly_data sample_reversed_range = Inr d \<and> date_axis d = Some []) \<and>
   TimeEnd sample_empty_range \<le> Time sample_empty_range \<and> 0 < Interval sample_empty_range \<and>
   (\<exists>d. air_pollution_hourly_data sample_empty_range = Inr d \<and>
      dict_keys d = [''date'', ''pm10'', ''pm2_5'', ''sulphur_dioxide'', ''nitrogen_dioxide'',
                     ''ozone'', ''carbon_monoxide'', ''european_aqi''])"
proof -
  have a: "TimeEnd sample_reversed_range \<le> Time sample_reversed_range"
      "0 < Interval sample_reversed_range"
    and lt: "TimeEnd sample_reversed_range < Time sample_reversed_range"
    by (simp_all add: sample_reversed_range_def)
  have v: "7 \<le> length (variables sample_reversed_range)"
      "4 \<le> length (variables sample_reversed_range)"
    by (simp_all add: sample_reversed_range_def)
  have b: "TimeEnd sample_empty_range \<le> Time sample_empty_range" "0 < Interval sample_empty_range"
    and vb: "7 \<le> length (variables sample_empty_range)"
    by (simp_all add: sample_empty_range_def)
  have names: "hourly (air_quality_params (0::nat) 0 [] []) =
      [''pm10'', ''pm2_5'', ''sulphur_dioxide'', ''nitrogen_dioxide'', ''ozone'',
       ''carbon_monoxide'', ''european_aqi'']"
    by (simp add: air_quality_params_def)
  have "\<exists>d. air_pollution_hourly_data sample_reversed_range = Inr d \<and> date_axis d = Some []"
    using range_not_after_start [OF a, of "0::nat" 0 "[]" "[]"] v lt by blast
  moreover have "\<exists>d. weather_hourly_data sample_reversed_range = Inr d \<and> date_axis d = Some []"
    using range_not_after_start [OF a, of "0::nat" 0 "[]" "[]"] v lt by blast
  moreover have "\<exists>d. air_pollution_hourly_data sample_empty_range = Inr d \<and>
      dict_keys d = [''date'', ''pm10'', ''pm2_5'', ''sulphur_dioxide'', ''nitrogen_dioxide'',
                     ''ozone'', ''carbon_monoxide'', ''european_aqi'']"
    using range_not_after_start [OF b, of "0::nat" 0 "[]" "[]"] vb unfolding names by blast
  ultimately show ?thesis using a lt b by blast
qed

end
